theory Spec2Isabelle
  imports Main "HOL-Library.Sublist" "HOL-Library.Extended_Nat"
begin

section \<open>Strings\<close>

text \<open>
  JavaScript strings are modelled as \<^typ>\<open>string\<close>; a \<^typ>\<open>char\<close> stands for a
  UTF-16 code unit below 256.  \<open>String.prototype.includes\<close> is \<^const>\<open>sublist\<close>,
  \<open>endsWith\<close> is \<^const>\<open>suffix\<close>.
\<close>

definition CR :: char where "CR = CHR 0x0D"
definition LF :: char where "LF = CHR 0x0A"

text \<open>The code units below 256 that \<open>trim()\<close> strips and that \<open>\s\<close> matches:
  TAB, LF, VT, FF, CR, space and the no-break space.\<close>

definition isWhiteSpace :: "char \<Rightarrow> bool" where
  "isWhiteSpace c = (c = CHR 0x09 \<or> c = CHR 0x0A \<or> c = CHR 0x0B \<or> c = CHR 0x0C
     \<or> c = CHR 0x0D \<or> c = CHR 0x20 \<or> c = CHR 0xA0)"

definition trim :: "string \<Rightarrow> string" where
  "trim s = rev (dropWhile isWhiteSpace (rev (dropWhile isWhiteSpace s)))"

definition isDigit :: "char \<Rightarrow> bool" where
  "isDigit c = ((48::nat) \<le> of_char c \<and> of_char c \<le> (57::nat))"

definition digitChar :: "nat \<Rightarrow> char" where
  "digitChar d = char_of (48 + d)"

text \<open>Decimal rendering of a number in a template literal.\<close>

fun showNat :: "nat \<Rightarrow> string" where
  "showNat n = (if n < 10 then [digitChar n] else showNat (n div 10) @ [digitChar (n mod 10)])"

declare showNat.simps [simp del]

definition showInt :: "int \<Rightarrow> string" where
  "showInt i = (if i < 0 then CHR ''-'' # showNat (nat (- i)) else showNat (nat i))"

text \<open>The integer that a string of decimal digits denotes.\<close>

definition digitVal :: "char \<Rightarrow> nat" where
  "digitVal c = of_char c - (48::nat)"

definition decimal :: "string \<Rightarrow> nat" where
  "decimal ds = foldl (\<lambda>acc c. 10 * acc + digitVal c) 0 ds"

text \<open>\<open>arr.join(sep)\<close>.\<close>

fun join :: "string \<Rightarrow> string list \<Rightarrow> string" where
  "join sep [] = []"
| "join sep [x] = x"
| "join sep (x # y # ys) = x @ sep @ join sep (y # ys)"

text \<open>\<open>str.replace(/(?<!\r)\n/g, "\r\n")\<close>: every line feed that does not follow a
  carriage return becomes CR LF.  The first argument tells whether the previous code
  unit was a carriage return.\<close>

fun crlf :: "bool \<Rightarrow> string \<Rightarrow> string" where
  "crlf prevCR [] = []"
| "crlf prevCR (c # cs) =
     (if c = LF \<and> \<not> prevCR then CR # LF # crlf False cs else c # crlf (c = CR) cs)"

definition normalizeNewlines :: "string \<Rightarrow> string" where
  "normalizeNewlines str = crlf False str"

section \<open>Process-wide state and effects\<close>

datatype error =
    Error string
  | AssertionError string
  | TypeError string

text \<open>\<open>`${e}`\<close> for a thrown value.\<close>

fun errorToString :: "error \<Rightarrow> string" where
  "errorToString (Error m) = ''Error: '' @ m"
| "errorToString (AssertionError m) = ''AssertionError [ERR_ASSERTION]: '' @ m"
| "errorToString (TypeError m) = ''TypeError: '' @ m"

text \<open>The value of \<open>currentProcess\<close>: the child process (a handle number), the literal
  command string and the label.\<close>

record running =
  proc :: nat
  cmdString :: string
  prettyName :: string

text \<open>Everything the extension does to the outside, in the order it does it.\<close>

datatype effect =
    Fire string
  | Append string
  | Kill nat
  | StdinWrite nat string
  | Spawn nat string "string list" "string option"
  | CreateTerminal
  | TerminalShow
  | ChannelShow
  | ShowWarning string
  | ShowError string
  | ShowInformation string
  | OpenExternal string
  | RmSync string
  | ConfigUpdate string string
  | SaveDocument

record ExecFancyOptions =
  cwd :: "string option"
  showTerminal :: bool
  silent :: bool
  optPrettyName :: "string option"

text \<open>
  \<open>terminalOpen\<close> says that \<open>robotpyTerminalAndEmitter\<close> is set and its terminal is still among
  \<open>vscode.window.terminals\<close>; \<open>inputBuffer\<close> is the variable captured by that terminal's pty;
  \<open>nextProc\<close> numbers the child processes.  \<open>listeners\<close> holds, for every child process that
  has been spawned and has not yet emitted \<open>close\<close>, what the handlers that \<open>execFancy\<close>
  registered on it have captured: the options and the command string of their call.
\<close>

record state =
  currentProcess :: "running option"
  terminalOpen :: bool
  inputBuffer :: string
  nextProc :: nat
  listeners :: "(nat \<times> ExecFancyOptions \<times> string) list"
  trace :: "effect list"

definition emit :: "effect \<Rightarrow> state \<Rightarrow> state" where
  "emit e s = s\<lparr>trace := trace s @ [e]\<rparr>"

definition appendLine :: "string \<Rightarrow> state \<Rightarrow> state" where
  "appendLine str s = emit (Append (str @ [LF])) s"

definition killCurrentProcess :: "state \<Rightarrow> state" where
  "killCurrentProcess s =
     (case currentProcess s of
        None \<Rightarrow> s
      | Some p \<Rightarrow> emit (Kill (proc p)) s)\<lparr>currentProcess := None\<rparr>"

section \<open>The pseudo-terminal\<close>

text \<open>The language of \<open>(Scripts|bin)[/\\]activate(\.(bat|ps1))?\<close>; the pattern ends in
  \<open>$\<close> and has no flag, so \<open>match\<close> succeeds when the string ends in one of these.\<close>

definition activateWords :: "string list" where
  "activateWords =
     concat (map (\<lambda>d. concat (map (\<lambda>sep. map (\<lambda>ext. d @ [sep] @ ''activate'' @ ext)
       ['''', ''.bat'', ''.ps1'']) [CHR ''/'', CHR 0x5C])) [''Scripts'', ''bin''])"

definition matchesActivate :: "string \<Rightarrow> bool" where
  "matchesActivate str = list_ex (\<lambda>w. suffix w str) activateWords"

definition stdinWrite :: "string \<Rightarrow> state \<Rightarrow> state" where
  "stdinWrite str s =
     (case currentProcess s of
        None \<Rightarrow> s
      | Some p \<Rightarrow> emit (StdinWrite (proc p) str) s)"

definition handleInput :: "string \<Rightarrow> state \<Rightarrow> state" where
  "handleInput data s =
     (if matchesActivate (trim data) then s\<lparr>inputBuffer := []\<rparr>
      else if data = [CHR 0x03] then
        (killCurrentProcess (emit (Fire (''^C'' @ [CR, LF])) s))\<lparr>inputBuffer := []\<rparr>
      else if data = [CR] \<or> data = [LF] then
        (stdinWrite (inputBuffer s @ [LF]) (emit (Fire [CR, LF]) s))\<lparr>inputBuffer := []\<rparr>
      else if data = [CHR 0x08] \<or> data = [CHR 0x7F] then
        (if length (inputBuffer s) > 0
         then emit (Fire [CHR 0x08, CHR 0x20, CHR 0x08]) (s\<lparr>inputBuffer := butlast (inputBuffer s)\<rparr>)
         else s)
      else emit (Fire data) (s\<lparr>inputBuffer := inputBuffer s @ data\<rparr>))"

text \<open>The pty's \<open>close\<close>, called when the terminal is closed: the terminal is then no longer
  among \<open>vscode.window.terminals\<close>.\<close>

definition pty_close :: "state \<Rightarrow> state" where
  "pty_close s = (killCurrentProcess s)\<lparr>terminalOpen := False\<rparr>"

definition getRobotPyTerminal :: "state \<Rightarrow> state" where
  "getRobotPyTerminal s =
     (if terminalOpen s then s
      else emit CreateTerminal (s\<lparr>terminalOpen := True, inputBuffer := []\<rparr>))"

section \<open>The handlers of a child process\<close>

definition VENV_DIR :: string where "VENV_DIR = ''.venv''"

definition PYTHON_MIN_VERSION :: "enat \<times> enat" where "PYTHON_MIN_VERSION = (3, 12)"

definition ROBOTPY_DOCS_URL :: string where
  "ROBOTPY_DOCS_URL = ''https://docs.wpilib.org/en/stable/docs/zero-to-robot/step-2/python-setup.html''"

definition dquote :: string where "dquote = [CHR 0x22]"

definition maybeWriteToTerminal :: "ExecFancyOptions \<Rightarrow> string \<Rightarrow> state \<Rightarrow> state" where
  "maybeWriteToTerminal opts str s =
     (if \<not> silent opts then emit (Fire (normalizeNewlines str)) s else s)"

definition mkCmdString :: "string \<Rightarrow> string list \<Rightarrow> string" where
  "mkCmdString exe argv = trim (exe @ '' '' @ join '' '' argv)"

definition mkPrettyName :: "ExecFancyOptions \<Rightarrow> string \<Rightarrow> string" where
  "mkPrettyName opts cmdStr = (case optPrettyName opts of Some n \<Rightarrow> n | None \<Rightarrow> cmdStr)"

text \<open>How a handler settles the promise of its call; a promise that is already settled
  stays as it is.\<close>

datatype settle = Resolve | Reject error

definition closeMsg :: "int option \<Rightarrow> string option \<Rightarrow> string" where
  "closeMsg code signal =
     (case code of
        None \<Rightarrow> ''Process was killed with signal '' @ (case signal of None \<Rightarrow> ''null'' | Some sg \<Rightarrow> sg)
      | Some n \<Rightarrow> ''Process exited with code '' @ showInt n)"

text \<open>The handler of \<open>close\<close> (lines 399 to 409) and the handler of \<open>error\<close> (lines 410 to
  413), for a call with options \<open>opts\<close> and command string \<open>cmdStr\<close>.  Neither looks at which
  process \<open>currentProcess\<close> holds.\<close>

definition onClose :: "ExecFancyOptions \<Rightarrow> string \<Rightarrow> int option \<Rightarrow> string option \<Rightarrow> state \<Rightarrow> settle \<times> state" where
  "onClose opts cmdStr code signal s =
     (let msg = closeMsg code signal;
          s1 = appendLine (msg @ '': '' @ cmdStr) s;
          s2 = maybeWriteToTerminal opts ([CR, LF] @ msg @ [CR, LF]) s1;
          s3 = s2\<lparr>currentProcess := None\<rparr>
      in if code \<noteq> Some 0 then (Reject (Error (msg @ '': '' @ mkPrettyName opts cmdStr)), s3)
         else (Resolve, s3))"

definition onError :: "error \<Rightarrow> state \<Rightarrow> settle \<times> state" where
  "onError e s = (Reject e, s\<lparr>currentProcess := None\<rparr>)"

text \<open>A child process that has emitted \<open>close\<close> emits nothing more.\<close>

definition dropListeners :: "nat \<Rightarrow> state \<Rightarrow> state" where
  "dropListeners h s = s\<lparr>listeners := filter (\<lambda>l. fst l \<noteq> h) (listeners s)\<rparr>"

section \<open>Events\<close>

text \<open>
  The extension runs on one thread: a piece of code runs until it awaits, and while it waits
  other callbacks run.  These are the events whose callbacks this file defines: input typed
  into the terminal, the terminal being closed, and the \<open>data\<close>, \<open>close\<close> and \<open>error\<close> events of
  a child process that was spawned earlier (by its handle), whose call may have returned long
  ago: the process that was killed to make room for another one, or the process whose \<open>error\<close>
  event Node follows with a \<open>close\<close> event.
\<close>

datatype event =
    Input string
  | TerminalClosed
  | ProcStdout nat string
  | ProcStderr nat string
  | ProcClose nat "int option" "string option"
  | ProcError nat error

fun deliver :: "state \<Rightarrow> event \<Rightarrow> state" where
  "deliver s (Input data) = (if terminalOpen s then handleInput data s else s)"
| "deliver s TerminalClosed = (if terminalOpen s then pty_close s else s)"
| "deliver s (ProcStdout h d) =
     (case map_of (listeners s) h of
        None \<Rightarrow> s
      | Some (opts, cmdStr) \<Rightarrow> maybeWriteToTerminal opts d (emit (Append d) s))"
| "deliver s (ProcStderr h d) =
     (case map_of (listeners s) h of
        None \<Rightarrow> s
      | Some (opts, cmdStr) \<Rightarrow> maybeWriteToTerminal opts d (emit (Append d) s))"
| "deliver s (ProcClose h code signal) =
     (case map_of (listeners s) h of
        None \<Rightarrow> s
      | Some (opts, cmdStr) \<Rightarrow> dropListeners h (snd (onClose opts cmdStr code signal s)))"
| "deliver s (ProcError h e) =
     (case map_of (listeners s) h of
        None \<Rightarrow> s
      | Some (opts, cmdStr) \<Rightarrow> snd (onError e s))"

definition deliverAll :: "event list \<Rightarrow> state \<Rightarrow> state" where
  "deliverAll evs s = foldl deliver s evs"

section \<open>The outside world\<close>

text \<open>What happens while a call of \<open>execFancy\<close> waits for its own process: data of that
  process on one of its two streams, or an event elsewhere.\<close>

datatype happening = StdoutData string | StderrData string | Elsewhere event

text \<open>How the wait ends: the \<open>close\<close> event of the call's own process with its exit code and
  signal (each possibly \<open>null\<close>), or its \<open>error\<close> event.\<close>

datatype procEnd = Close "int option" "string option" | SpawnError error

record outcome =
  during :: "happening list"
  ending :: procEnd

text \<open>
  What the extension reads from its environment, taken as parameters: the platform,
  \<open>path.join\<close>, the file system, what happens while each spawned process is waited for (by
  handle, command, arguments and working directory), the button the user picks in each dialog
  and the events that happen while that dialog is open, the result of the PowerShell query,
  the workspace folders, the active editor (\<open>None\<close>: no editor; \<open>Some b\<close>:
  \<open>document.save()\<close> gives \<open>b\<close>), the failures of \<open>config.update\<close> and \<open>fs.rmSync\<close>, and,
  for a string of digits that denotes \<open>2^53\<close> or more, the number that \<open>parseInt\<close> makes of it
  (a rounded double, possibly \<open>Infinity\<close>) and the text of that number in a template literal.
\<close>

record world =
  isWindows :: bool
  pathJoin :: "string list \<Rightarrow> string"
  readFile :: "string \<Rightarrow> error + string"
  existsSync :: "string \<Rightarrow> bool"
  spawnOutcome :: "nat \<Rightarrow> string \<Rightarrow> string list \<Rightarrow> string option \<Rightarrow> outcome"
  userPicks :: "string \<Rightarrow> string list \<Rightarrow> string option"
  whileAsked :: "string \<Rightarrow> event list"
  getExecutionPolicy :: "error + (string \<times> string)"
  workspaceFolders :: "string list option"
  activeEditor :: "bool option"
  configUpdate :: "string \<Rightarrow> string \<Rightarrow> error option"
  rmSync :: "string \<Rightarrow> error option"
  bigNumber :: "string \<Rightarrow> enat"
  bigNumberText :: "string \<Rightarrow> string"

text \<open>An awaited dialog: it is shown, events happen while it is open, the user picks.\<close>

definition ask :: "world \<Rightarrow> effect \<Rightarrow> string \<Rightarrow> string list \<Rightarrow> state \<Rightarrow> string option \<times> state" where
  "ask w shown msg items s = (userPicks w msg items, deliverAll (whileAsked w msg) (emit shown s))"

section \<open>The process supervisor\<close>

text \<open>The text of the dialog of \<open>promptUserToKillCurrentProcess\<close>.\<close>

definition cancelQuestion :: "running \<Rightarrow> string" where
  "cancelQuestion p = ''The command '' @ dquote @ prettyName p @ dquote
     @ '' is currently running. Would you like to cancel it?''"

definition promptUserToKillCurrentProcess :: "world \<Rightarrow> state \<Rightarrow> bool \<times> state" where
  "promptUserToKillCurrentProcess w s =
     (case currentProcess s of
        None \<Rightarrow> (True, appendLine ''WARNING: No process was running when the user was prompted to kill it. Assuming they did want to kill it, in hopes of continuing with whatever logic was running.'' s)
      | Some p \<Rightarrow>
          (case ask w (ShowWarning (cancelQuestion p)) (cancelQuestion p) [''Yes'', ''No''] s of
             (action, s1) \<Rightarrow> (action = Some ''Yes'', s1)))"

definition nope :: "running \<Rightarrow> string \<Rightarrow> error" where
  "nope p cmdStr = Error (''Could not run command because another process (''
     @ prettyName p @ '') was running: '' @ cmdStr)"

text \<open>Reading \<open>currentProcess.cmdString\<close> at line 371 when \<open>currentProcess\<close> is undefined.\<close>

definition noCmdString :: error where
  "noCmdString = TypeError ''Cannot read properties of undefined (reading 'cmdString')''"

text \<open>Lines 362 to 377 of \<open>execFancy\<close>: what happens to a process that is already running.
  The error \<open>nope\<close> is built before the dialog, from the process that is running then; line 371
  and \<open>killCurrentProcess\<close> read \<open>currentProcess\<close> after the dialog, as the events that
  happened meanwhile have left it.\<close>

definition resolveRunning :: "world \<Rightarrow> ExecFancyOptions \<Rightarrow> string \<Rightarrow> state \<Rightarrow> (error + unit) \<times> state" where
  "resolveRunning w opts cmdStr s =
     (case currentProcess s of
        None \<Rightarrow> (Inr (), s)
      | Some p \<Rightarrow>
          if silent opts then (Inl (nope p cmdStr), s)
          else (case promptUserToKillCurrentProcess w s of (killCurrent, s1) \<Rightarrow>
            if killCurrent then
              (case currentProcess s1 of
                 None \<Rightarrow> (Inl noCmdString, s1)
               | Some q \<Rightarrow>
                   (Inr (), maybeWriteToTerminal opts ([CR, LF] @ ''Process killed'' @ [CR, LF])
                     (killCurrentProcess
                       (appendLine (''Process '' @ dquote @ cmdString q @ dquote
                          @ '' killed in order to run: '' @ cmdStr) s1))))
            else (Inl (nope p cmdStr), s1)))"

text \<open>\<open>execFancy\<close> up to and including \<open>spawn\<close> and the registration of the handlers; the
  result is the new process's handle.\<close>

definition execFancy_begin :: "world \<Rightarrow> string \<Rightarrow> string list \<Rightarrow> ExecFancyOptions \<Rightarrow> state \<Rightarrow> (error + nat) \<times> state" where
  "execFancy_begin w exe argv opts s0 =
     (let cmdStr = mkCmdString exe argv in
      case resolveRunning w opts cmdStr (getRobotPyTerminal s0) of
        (Inl e, s1) \<Rightarrow> (Inl e, s1)
      | (Inr u, s1) \<Rightarrow>
          (let s2 = appendLine (''Running: '' @ cmdStr) s1;
               s3 = maybeWriteToTerminal opts (''$ '' @ cmdStr @ [CR, LF]) s2;
               s4 = (if showTerminal opts then emit TerminalShow s3 else s3);
               h = nextProc s4
           in (Inr h, (emit (Spawn h exe argv (cwd opts)) s4)
                 \<lparr>currentProcess := Some \<lparr>proc = h, cmdString = cmdStr, prettyName = mkPrettyName opts cmdStr\<rparr>,
                  nextProc := Suc h,
                  listeners := (h, opts, cmdStr) # listeners s4\<rparr>)))"

text \<open>The local variables \<open>stdout\<close> and \<open>stderr\<close> of one call.\<close>

record capture =
  stdout :: string
  stderr :: string

fun onData :: "ExecFancyOptions \<Rightarrow> capture \<times> state \<Rightarrow> happening \<Rightarrow> capture \<times> state" where
  "onData opts (c, s) (StdoutData d) =
     (c\<lparr>stdout := stdout c @ d\<rparr>, maybeWriteToTerminal opts d (emit (Append d) s))"
| "onData opts (c, s) (StderrData d) =
     (c\<lparr>stderr := stderr c @ d\<rparr>, maybeWriteToTerminal opts d (emit (Append d) s))"
| "onData opts (c, s) (Elsewhere ev) = (c, deliver s ev)"

text \<open>
  \<open>execFancy\<close> from \<open>spawn\<close> on, for the process \<open>h\<close>: what happens during the wait, then the
  event of \<open>h\<close> that settles the promise.  After its \<open>close\<close> the process emits nothing more;
  after its \<open>error\<close> its handlers stay, and what it emits later is an event of some later wait.
\<close>

definition execFancy_finish :: "nat \<Rightarrow> ExecFancyOptions \<Rightarrow> string \<Rightarrow> outcome \<Rightarrow> state \<Rightarrow> (error + string \<times> string) \<times> state" where
  "execFancy_finish h opts cmdStr oc s =
     (case foldl (onData opts) (\<lparr>stdout = [], stderr = []\<rparr>, s) (during oc) of (c, s1) \<Rightarrow>
        (case (case ending oc of
                 Close code signal \<Rightarrow>
                   (case onClose opts cmdStr code signal s1 of (r, s2) \<Rightarrow> (r, dropListeners h s2))
               | SpawnError e \<Rightarrow> onError e s1) of
           (Resolve, s2) \<Rightarrow> (Inr (stdout c, stderr c), s2)
         | (Reject e, s2) \<Rightarrow> (Inl e, s2)))"

definition execFancy :: "world \<Rightarrow> string \<Rightarrow> string list \<Rightarrow> ExecFancyOptions \<Rightarrow> state \<Rightarrow> (error + string \<times> string) \<times> state" where
  "execFancy w exe argv opts s =
     (case execFancy_begin w exe argv opts s of
        (Inl e, s1) \<Rightarrow> (Inl e, s1)
      | (Inr h, s1) \<Rightarrow>
          execFancy_finish h opts (mkCmdString exe argv) (spawnOutcome w h exe argv (cwd opts)) s1)"

section \<open>The interpreter locator\<close>

definition getVenvPath :: "world \<Rightarrow> string \<Rightarrow> string" where
  "getVenvPath w rootPath = pathJoin w [rootPath, VENV_DIR]"

definition getVenvPythonPath :: "world \<Rightarrow> string \<Rightarrow> string" where
  "getVenvPythonPath w rootPath =
     (if isWindows w then pathJoin w [getVenvPath w rootPath, ''Scripts'', ''python.exe'']
      else pathJoin w [getVenvPath w rootPath, ''bin'', ''python''])"

definition getVenvPipPath :: "world \<Rightarrow> string \<Rightarrow> string" where
  "getVenvPipPath w rootPath =
     (if isWindows w then pathJoin w [getVenvPath w rootPath, ''Scripts'', ''pip.exe'']
      else pathJoin w [getVenvPath w rootPath, ''bin'', ''pip''])"

record PythonCommand =
  cmd :: string
  args :: "string list"
  version :: "enat \<times> enat"
  versionStr :: string

text \<open>\<open>toLowerCase\<close> on code units below 256: the letters A to Z, and the capital letters
  from 0xC0 to 0xDE other than the multiplication sign 0xD7.\<close>

definition toLower :: "char \<Rightarrow> char" where
  "toLower c =
     (let n = (of_char c :: nat)
      in if (65 \<le> n \<and> n \<le> 90) \<or> (192 \<le> n \<and> n \<le> 222 \<and> n \<noteq> 215) then char_of (n + 32) else c)"

text \<open>
  \<open>/Python\s+(\d+)\.(\d+)/i\<close> tried at the start of a string: the word in any case, white
  space, the longest run of digits, a dot, the longest run of digits.  Taking fewer white
  space or digits never helps, so the longest runs decide.
\<close>

definition matchVersionAt :: "string \<Rightarrow> (string \<times> string) option" where
  "matchVersionAt str =
     (if map toLower (take 6 str) = ''python'' then
        (let r0 = drop 6 str;
             r1 = dropWhile isWhiteSpace r0;
             major = takeWhile isDigit r1;
             r2 = dropWhile isDigit r1;
             minor = takeWhile isDigit (drop 1 r2)
         in if takeWhile isWhiteSpace r0 \<noteq> [] \<and> major \<noteq> [] \<and> take 1 r2 = ''.'' \<and> minor \<noteq> []
            then Some (major, minor) else None)
      else None)"

text \<open>\<open>out.match(...)\<close>: the leftmost position where the pattern matches.\<close>

fun matchVersion :: "string \<Rightarrow> (string \<times> string) option" where
  "matchVersion [] = None"
| "matchVersion (c # cs) =
     (case matchVersionAt (c # cs) of Some m \<Rightarrow> Some m | None \<Rightarrow> matchVersion cs)"

text \<open>\<open>parseInt(ds, 10)\<close> on a string of decimal digits, and \<open>`${parseInt(ds, 10)}`\<close>: a
  number below \<open>2^53\<close> is held exactly and printed in decimal.\<close>

definition parseInt :: "world \<Rightarrow> string \<Rightarrow> enat" where
  "parseInt w ds = (if decimal ds < 2 ^ 53 then enat (decimal ds) else bigNumber w ds)"

definition numberText :: "world \<Rightarrow> string \<Rightarrow> string" where
  "numberText w ds = (if decimal ds < 2 ^ 53 then showNat (decimal ds) else bigNumberText w ds)"

definition baseCandidates :: "string list list" where
  "baseCandidates = [[''python.exe''], [''python3''], [''python''], [''py'', ''-3''], [''py'']]"

text \<open>An empty \<open>venvPath\<close> is falsy, like an absent one.\<close>

definition candidatesFor :: "world \<Rightarrow> string option \<Rightarrow> string list list" where
  "candidatesFor w venvPath =
     (case venvPath of
        None \<Rightarrow> baseCandidates
      | Some v \<Rightarrow>
          if v = [] then baseCandidates
          else map (\<lambda>c. pathJoin w [v, ''bin'', hd c] # tl c) baseCandidates
             @ map (\<lambda>c. pathJoin w [v, ''Scripts'', hd c] # tl c) baseCandidates)"

definition silentOpts :: ExecFancyOptions where
  "silentOpts = \<lparr>cwd = None, showTerminal = False, silent = True, optPrettyName = None\<rparr>"

text \<open>What the body of the \<open>try\<close> block does with one candidate: it throws, goes on to the
  next candidate, or returns.\<close>

datatype 'a step = Continue | Return 'a

definition tryCandidate :: "world \<Rightarrow> string list \<Rightarrow> state \<Rightarrow> (error + PythonCommand step) \<times> state" where
  "tryCandidate w candidate s =
     (case candidate of
        [] \<Rightarrow> (Inl (TypeError (''The '' @ dquote @ ''file'' @ dquote @ '' argument must be of type string. Received undefined'')), s)
      | executable # argv \<Rightarrow>
          (case execFancy w executable (argv @ [''--version'']) silentOpts s of
             (Inl e, s1) \<Rightarrow> (Inl e, s1)
           | (Inr (out, err), s1) \<Rightarrow>
               (case matchVersion (if out \<noteq> [] then out else err) of
                  None \<Rightarrow> (Inr Continue, s1)
                | Some (ma, mi) \<Rightarrow>
                    (Inr (Return \<lparr>cmd = executable, args = argv,
                       version = (parseInt w ma, parseInt w mi),
                       versionStr = numberText w ma @ ''.'' @ numberText w mi\<rparr>), s1))))"

fun tryCandidates :: "world \<Rightarrow> string list list \<Rightarrow> state \<Rightarrow> (error + PythonCommand option) \<times> state" where
  "tryCandidates w [] s = (Inr None, s)"
| "tryCandidates w (candidate # rest) s =
     (case tryCandidate w candidate s of
        (Inl e, s1) \<Rightarrow>
          tryCandidates w rest
            (appendLine (''Python candidate '' @ join '','' candidate @ '' did not work: '' @ errorToString e) s1)
      | (Inr Continue, s1) \<Rightarrow> tryCandidates w rest s1
      | (Inr (Return py), s1) \<Rightarrow> (Inr (Some py), s1))"

text \<open>What one run of the loop goes through: the candidates that it reaches, in order, each
  with what its \<open>try\<close> block did.\<close>

fun attempts :: "world \<Rightarrow> string list list \<Rightarrow> state \<Rightarrow> (string list \<times> (error + PythonCommand step)) list" where
  "attempts w [] s = []"
| "attempts w (candidate # rest) s =
     (case tryCandidate w candidate s of
        (Inl e, s1) \<Rightarrow>
          (candidate, Inl e) # attempts w rest
            (appendLine (''Python candidate '' @ join '','' candidate @ '' did not work: '' @ errorToString e) s1)
      | (Inr Continue, s1) \<Rightarrow> (candidate, Inr Continue) # attempts w rest s1
      | (Inr (Return py), s1) \<Rightarrow> [(candidate, Inr (Return py))])"

definition findPythonCommand :: "world \<Rightarrow> string option \<Rightarrow> state \<Rightarrow> (error + PythonCommand option) \<times> state" where
  "findPythonCommand w venvPath s = tryCandidates w (candidatesFor w venvPath) s"

section \<open>The environment prober\<close>

record EnvironmentChecks =
  hasRobotPyProjectFile :: bool
  hasSystemPython :: bool
  isSystemPythonNewEnough :: bool
  hasSystemPythonVenvModule :: bool
  systemPythonCommand :: "PythonCommand option"
  hasVenvFolder :: bool
  isVenvPythonNewEnough :: bool
  isVenvReady :: bool
  venvPythonCommand :: "PythonCommand option"
  winExecutionPolicyOk :: bool

definition initialChecks :: "world \<Rightarrow> EnvironmentChecks" where
  "initialChecks w =
     \<lparr>hasRobotPyProjectFile = False,
      hasSystemPython = False, isSystemPythonNewEnough = False, hasSystemPythonVenvModule = False,
      systemPythonCommand = None,
      hasVenvFolder = False, isVenvPythonNewEnough = False, isVenvReady = False,
      venvPythonCommand = None,
      winExecutionPolicyOk = (if isWindows w then False else True)\<rparr>"

text \<open>The test of lines 176 and 205.\<close>

definition newEnough :: "enat \<times> enat \<Rightarrow> bool" where
  "newEnough v = (fst v \<ge> fst PYTHON_MIN_VERSION \<and> snd v \<ge> snd PYTHON_MIN_VERSION)"

definition probeProjectFile :: "world \<Rightarrow> string \<Rightarrow> EnvironmentChecks \<Rightarrow> state \<Rightarrow> EnvironmentChecks \<times> state" where
  "probeProjectFile w rootPath r s0 =
     (let s = appendLine ''Checking for a RobotPy project...'' s0
      in case readFile w (pathJoin w [rootPath, ''pyproject.toml'']) of
           Inr content \<Rightarrow>
             ((if sublist ''[tool.robotpy]'' content then r\<lparr>hasRobotPyProjectFile := True\<rparr> else r), s)
         | Inl e \<Rightarrow>
             (r, appendLine (''Expected (?) error when checking for pyproject.toml: '' @ errorToString e) s))"

definition probeSystemPython :: "world \<Rightarrow> EnvironmentChecks \<Rightarrow> state \<Rightarrow> (error + EnvironmentChecks) \<times> state" where
  "probeSystemPython w r s0 =
     (case findPythonCommand w None (appendLine ''Checking system Python...'' s0) of
        (Inl e, s) \<Rightarrow> (Inl e, s)
      | (Inr None, s) \<Rightarrow> (Inr r, s)
      | (Inr (Some systemPython), s) \<Rightarrow>
          (let r1 = r\<lparr>hasSystemPython := True, systemPythonCommand := Some systemPython\<rparr>;
               s1 = appendLine (''System Python found with version '' @ versionStr systemPython) s
           in if newEnough (version systemPython) then
                (let r2 = r1\<lparr>isSystemPythonNewEnough := True\<rparr>;
                     s2 = appendLine ''System Python is new enough'' s1
                 in case execFancy w (cmd systemPython) (args systemPython @ [''-c'', ''import venv'']) silentOpts s2 of
                      (Inr u, s3) \<Rightarrow>
                        (Inr (r2\<lparr>hasSystemPythonVenvModule := True\<rparr>), appendLine ''System Python has venv module'' s3)
                    | (Inl e, s3) \<Rightarrow>
                        (Inr r2, appendLine (''Expected (?) error when checking for system venv module: '' @ errorToString e) s3))
              else (Inr r1, appendLine ''System Python is too old'' s1)))"

definition probeVenv :: "world \<Rightarrow> string \<Rightarrow> EnvironmentChecks \<Rightarrow> state \<Rightarrow> (error + EnvironmentChecks) \<times> state" where
  "probeVenv w rootPath r s0 =
     (if existsSync w (getVenvPath w rootPath) then
        (let r1 = r\<lparr>hasVenvFolder := True\<rparr>;
             s1 = appendLine (''venv found at '' @ getVenvPath w rootPath) s0
         in case findPythonCommand w (Some (getVenvPath w rootPath)) s1 of
              (Inl e, s) \<Rightarrow> (Inl e, s)
            | (Inr None, s) \<Rightarrow> (Inr r1, appendLine ''Python not found in venv'' s)
            | (Inr (Some venvPython), s) \<Rightarrow>
                (let r2 = r1\<lparr>venvPythonCommand := Some venvPython\<rparr>;
                     s2 = appendLine (''venv Python found with version '' @ versionStr venvPython) s
                 in if newEnough (version venvPython) then
                      (let r3 = r2\<lparr>isVenvPythonNewEnough := True\<rparr>;
                           s3 = appendLine ''venv Python is new enough'' s2
                       in case execFancy w (cmd venvPython) (args venvPython @ [''-c'', ''import robotpy''])
                                 (silentOpts\<lparr>cwd := Some rootPath\<rparr>) s3 of
                            (Inr u, s4) \<Rightarrow>
                              (Inr (r3\<lparr>isVenvReady := True\<rparr>),
                               appendLine ''venv Python has robotpy and is therefore good to go'' s4)
                          | (Inl e, s4) \<Rightarrow>
                              (Inr r3, appendLine (''Expected (?) error when checking for robotpy in venv: '' @ errorToString e) s4))
                    else (Inr r2, appendLine ''venv Python too old'' s2)))
      else (Inr r, s0))"

definition probeExecutionPolicy :: "world \<Rightarrow> EnvironmentChecks \<Rightarrow> state \<Rightarrow> (EnvironmentChecks \<times> bool) \<times> state" where
  "probeExecutionPolicy w r s =
     (if isWindows w then
        (case getExecutionPolicy w of
           Inr (out, err) \<Rightarrow>
             (let policy = map toLower (trim (if out \<noteq> [] then out else err))
              in ((if policy \<in> set [''remotesigned'', ''bypass'', ''unrestricted'']
                   then r\<lparr>winExecutionPolicyOk := True\<rparr> else r, False), s))
         | Inl e \<Rightarrow>
             ((r, True), appendLine (''ERROR: Failed to check PowerShell execution policy: '' @ errorToString e) s))
      else ((r, False), s))"

text \<open>The four assertions of lines 242 to 253, in their order; \<open>None\<close> when all pass.\<close>

definition falsy :: error where
  "falsy = AssertionError ''The expression evaluated to a falsy value''"

definition assertInvariants :: "EnvironmentChecks \<Rightarrow> error option" where
  "assertInvariants r =
     (if isSystemPythonNewEnough r \<and> \<not> hasSystemPython r then Some falsy
      else if hasSystemPythonVenvModule r \<and> \<not> (hasSystemPython r \<and> isSystemPythonNewEnough r) then Some falsy
      else if isVenvPythonNewEnough r \<and> \<not> hasVenvFolder r then Some falsy
      else if isVenvReady r \<and> \<not> (hasVenvFolder r \<and> isVenvPythonNewEnough r) then Some falsy
      else None)"

definition checkEnvironment :: "world \<Rightarrow> string \<Rightarrow> state \<Rightarrow> (error + EnvironmentChecks \<times> bool) \<times> state" where
  "checkEnvironment w rootPath s0 =
     (case probeProjectFile w rootPath (initialChecks w) s0 of (r1, s1) \<Rightarrow>
      case probeSystemPython w r1 s1 of
        (Inl e, s2) \<Rightarrow> (Inl e, s2)
      | (Inr r2, s2) \<Rightarrow>
          (case probeVenv w rootPath r2 s2 of
             (Inl e, s3) \<Rightarrow> (Inl e, s3)
           | (Inr r3, s3) \<Rightarrow>
               (case probeExecutionPolicy w r3 s3 of ((r4, didError), s4) \<Rightarrow>
                  (case assertInvariants r4 of
                     Some e \<Rightarrow> (Inl e, s4)
                   | None \<Rightarrow> (Inr (r4, didError), s4)))))"

section \<open>The environment reconciler\<close>

text \<open>\<open>showErrorMessage(msg, "Visit Docs")\<close> with its continuation.\<close>

definition showErrorVisitDocs :: "world \<Rightarrow> string \<Rightarrow> state \<Rightarrow> state" where
  "showErrorVisitDocs w msg s =
     (let s1 = emit (ShowError msg) s
      in if userPicks w msg [''Visit Docs''] = Some ''Visit Docs''
         then emit (OpenExternal ROBOTPY_DOCS_URL) s1 else s1)"

definition checkSystemPython :: "world \<Rightarrow> EnvironmentChecks \<Rightarrow> state \<Rightarrow> (error + bool) \<times> state" where
  "checkSystemPython w checks s =
     (if \<not> hasSystemPython checks then
        (Inr False, showErrorVisitDocs w ''Cannot install RobotPy: Python is not installed on your system.'' s)
      else case systemPythonCommand checks of
        None \<Rightarrow> (Inl falsy, s)
      | Some py \<Rightarrow>
          if \<not> isSystemPythonNewEnough checks then
            (Inr False, showErrorVisitDocs w
               (''Cannot install RobotPy: Your system version of Python ('' @ versionStr py
                  @ '') is too old. Please upgrade to the latest version.'') s)
          else if \<not> hasSystemPythonVenvModule checks then
            (Inr False, emit (ShowError
               (''Cannot install RobotPy: Your system Python installation does not include the ''
                  @ dquote @ ''venv'' @ dquote
                  @ '' module. Please install it in the appropriate way for your system, or reach out to a mentor for help.'')) s)
          else (Inr True, s))"

definition setWorkspacePythonInterpreter :: "world \<Rightarrow> string \<Rightarrow> state \<Rightarrow> (error + unit) \<times> state" where
  "setWorkspacePythonInterpreter w rootPath s =
     (let pythonPath = getVenvPythonPath w rootPath;
          s1 = emit (ConfigUpdate ''defaultInterpreterPath'' pythonPath) s
      in case configUpdate w ''defaultInterpreterPath'' pythonPath of
           Some e \<Rightarrow> (Inl e, s1)
         | None \<Rightarrow> (Inr (), appendLine (''Configured Python extension to use: '' @ pythonPath) s1))"

definition terminalOpts :: "string \<Rightarrow> ExecFancyOptions" where
  "terminalOpts rootPath = \<lparr>cwd = Some rootPath, showTerminal = True, silent = False, optPrettyName = None\<rparr>"

definition createVenv :: "world \<Rightarrow> string \<Rightarrow> PythonCommand \<Rightarrow> state \<Rightarrow> (error + unit) \<times> state" where
  "createVenv w rootPath systemPy s =
     (case execFancy w (cmd systemPy) (args systemPy @ [''-m'', ''venv'', getVenvPath w rootPath])
             (terminalOpts rootPath) (appendLine ''Creating virtual environment...'' s) of
        (Inl e, s1) \<Rightarrow> (Inl e, s1)
      | (Inr u, s1) \<Rightarrow>
          setWorkspacePythonInterpreter w rootPath (appendLine ''Virtual environment created successfully.'' s1))"

definition installLatestRobotPy :: "world \<Rightarrow> string \<Rightarrow> state \<Rightarrow> (error + unit) \<times> state" where
  "installLatestRobotPy w rootPath s =
     (case execFancy w (getVenvPipPath w rootPath) [''install'', ''--upgrade'', ''robotpy'']
             (terminalOpts rootPath) (appendLine ''Installing/upgrading RobotPy...'' s) of
        (Inl e, s1) \<Rightarrow> (Inl e, s1)
      | (Inr u, s1) \<Rightarrow> (Inr (), appendLine ''RobotPy installed successfully.'' s1))"

text \<open>\<open>await createVenv(...); await installLatestRobotPy(...)\<close>, as both branches do.\<close>

definition createThenInstall :: "world \<Rightarrow> string \<Rightarrow> PythonCommand \<Rightarrow> state \<Rightarrow> (error + bool) \<times> state" where
  "createThenInstall w rootPath systemPy s =
     (case createVenv w rootPath systemPy s of
        (Inl e, s1) \<Rightarrow> (Inl e, s1)
      | (Inr u, s1) \<Rightarrow>
          (case installLatestRobotPy w rootPath s1 of
             (Inl e, s2) \<Rightarrow> (Inl e, s2)
           | (Inr u2, s2) \<Rightarrow> (Inr True, s2)))"

text \<open>The \<open>try\<close> block of \<open>ensureVenv\<close>.\<close>

definition ensureVenv_try :: "world \<Rightarrow> string \<Rightarrow> EnvironmentChecks \<Rightarrow> state \<Rightarrow> (error + bool) \<times> state" where
  "ensureVenv_try w rootPath checks s =
     (if \<not> hasVenvFolder checks then
        (case checkSystemPython w checks s of
           (Inl e, s1) \<Rightarrow> (Inl e, s1)
         | (Inr False, s1) \<Rightarrow> (Inr False, s1)
         | (Inr True, s1) \<Rightarrow>
             (case systemPythonCommand checks of
                None \<Rightarrow> (Inl falsy, s1)
              | Some py \<Rightarrow>
                  (let msg = ''The RobotPy extension requires a virtual environment. Would you like to create one?''
                   in case ask w (ShowWarning msg) msg [''Yes (Recommended)'', ''No''] s1 of (action, s2) \<Rightarrow>
                      if action \<noteq> Some ''Yes (Recommended)''
                      then (Inr False, s2)
                      else createThenInstall w rootPath py s2)))
      else if \<not> isVenvPythonNewEnough checks then
        (case checkSystemPython w checks s of
           (Inl e, s1) \<Rightarrow> (Inl e, s1)
         | (Inr False, s1) \<Rightarrow> (Inr False, s1)
         | (Inr True, s1) \<Rightarrow>
             (case systemPythonCommand checks of
                None \<Rightarrow> (Inl falsy, s1)
              | Some py \<Rightarrow>
                  (let msg = ''A virtual environment already exists, but is out of date. Would you like to tear it down and recreate it?''
                   in case ask w (ShowInformation msg) msg [''Yes'', ''No''] s1 of (action, s2) \<Rightarrow>
                      if action \<noteq> Some ''Yes''
                      then (Inr False, s2)
                      else (let s3 = emit (RmSync (getVenvPath w rootPath))
                                       (appendLine ''Deleting existing virtual environment...'' s2)
                            in case rmSync w (getVenvPath w rootPath) of
                                 Some e \<Rightarrow> (Inl e, s3)
                               | None \<Rightarrow> createThenInstall w rootPath py s3))))
      else if \<not> isVenvReady checks then
        (case installLatestRobotPy w rootPath s of
           (Inl e, s1) \<Rightarrow> (Inl e, s1)
         | (Inr u, s1) \<Rightarrow> (Inr True, s1))
      else (Inr True, s))"

definition warnExecutionPolicy :: "state \<Rightarrow> state" where
  "warnExecutionPolicy s =
     appendLine '' 2. Run the following command: Set-ExecutionPolicy RemoteSigned''
      (appendLine '' 1. Open a PowerShell window as Administrator.''
        (appendLine ''Your PowerShell execution policy does not allow scripts to execute, which will prevent VS Code from activating Python virtual environments. To fix this, do the following:''
          (emit (ShowWarning ''Your system's PowerShell execution policy is incompatible with Python virtual environments. See the output log for details.'') s)))"

definition ensureVenv :: "world \<Rightarrow> string \<Rightarrow> EnvironmentChecks \<Rightarrow> state \<Rightarrow> bool \<times> state" where
  "ensureVenv w rootPath checks s0 =
     (let s = (if \<not> winExecutionPolicyOk checks then warnExecutionPolicy s0 else s0)
      in if isVenvReady checks then (True, s)
         else (case ensureVenv_try w rootPath checks s of
                 (Inr b, s1) \<Rightarrow> (b, s1)
               | (Inl e, s1) \<Rightarrow>
                   (False, emit ChannelShow
                      (appendLine (''ERROR: '' @ errorToString e)
                        (emit (ShowError ''Cannot install RobotPy: Failed to set up the virtual environment. See the output log for details.'') s1)))))"

section \<open>Commands\<close>

definition robotpyCommand :: "world \<Rightarrow> string \<Rightarrow> string list \<Rightarrow> state \<Rightarrow> (error + string \<times> string) \<times> state" where
  "robotpyCommand w rootPath argv s =
     execFancy w (getVenvPythonPath w rootPath) ([''-m'', ''robotpy''] @ argv)
       \<lparr>cwd = Some rootPath, showTerminal = True, silent = False,
        optPrettyName = Some (''robotpy '' @ join '' '' argv)\<rparr> s"

definition noFolder :: error where
  "noFolder = TypeError ''Cannot read properties of undefined (reading 'uri')''"

definition onProjectOpen :: "world \<Rightarrow> state \<Rightarrow> (error + unit) \<times> state" where
  "onProjectOpen w s =
     (case workspaceFolders w of
        None \<Rightarrow> (Inr (), s)
      | Some [] \<Rightarrow> (Inl noFolder, s)
      | Some (rootPath # others) \<Rightarrow>
          (case checkEnvironment w rootPath s of
             (Inl e, s1) \<Rightarrow> (Inl e, s1)
           | (Inr (checks, didError), s1) \<Rightarrow>
               (let s2 = (if didError then emit (ShowWarning ''There were errors when checking the system environment for RobotPy. See the output log for details.'') s1 else s1)
                in if \<not> hasRobotPyProjectFile checks then (Inr (), s2)
                   else (case ensureVenv w rootPath checks s2 of
                      (False, s3) \<Rightarrow> (Inr (), s3)
                    | (True, s3) \<Rightarrow>
                        (let msg = ''Would you like to run `robotpy sync` to make sure your project is up to date?''
                         in case ask w (ShowInformation msg) msg [''Yes (Recommended)'', ''No''] s3 of (action, s4) \<Rightarrow>
                            if action = Some ''Yes (Recommended)'' then
                              (case robotpyCommand w rootPath [''project'', ''update-robotpy'']
                                      (appendLine ''Running sync on project open'' s4) of
                                 (Inl e, s5) \<Rightarrow> (Inl e, s5)
                               | (Inr u, s5) \<Rightarrow>
                                   (case robotpyCommand w rootPath [''sync''] s5 of
                                      (Inl e, s6) \<Rightarrow> (Inl e, s6)
                                    | (Inr u2, s6) \<Rightarrow> (Inr (), s6)))
                            else (Inr (), s4))))))"

definition ensureRobotPyReady :: "world \<Rightarrow> state \<Rightarrow> (error + bool) \<times> state" where
  "ensureRobotPyReady w s =
     (case workspaceFolders w of
        None \<Rightarrow> (Inr False, s)
      | Some [] \<Rightarrow> (Inl noFolder, s)
      | Some (rootPath # others) \<Rightarrow>
          (case checkEnvironment w rootPath s of
             (Inl e, s1) \<Rightarrow> (Inl e, s1)
           | (Inr (checks, checkError), s1) \<Rightarrow>
               if checkError then
                 (Inr False, emit ChannelShow
                    (emit (ShowError ''Failed to check if RobotPy is ready. See the output log for details.'') s1))
               else (case ensureVenv w rootPath checks s1 of (venvReady, s2) \<Rightarrow> (Inr venvReady, s2))))"

definition mustGetRootPath :: "world \<Rightarrow> error + string" where
  "mustGetRootPath w =
     (case workspaceFolders w of
        None \<Rightarrow> Inl (Error ''No workspace is open'')
      | Some [] \<Rightarrow> Inl noFolder
      | Some (rootPath # others) \<Rightarrow> Inr rootPath)"

definition saveCurrentFile :: "world \<Rightarrow> state \<Rightarrow> bool \<times> state" where
  "saveCurrentFile w s =
     (case activeEditor w of
        None \<Rightarrow> (False, s)
      | Some saved \<Rightarrow> (saved, emit SaveDocument s))"

text \<open>\<open>JSON.stringify\<close> of a \<open>string[][]\<close>.\<close>

definition hexDigit :: "nat \<Rightarrow> char" where
  "hexDigit d = (if d < 10 then char_of (48 + d) else char_of (87 + d))"

definition jsonChar :: "char \<Rightarrow> string" where
  "jsonChar c =
     (if c = CHR 0x22 then [CHR 0x5C, CHR 0x22]
      else if c = CHR 0x5C then [CHR 0x5C, CHR 0x5C]
      else if c = CHR 0x08 then [CHR 0x5C, CHR ''b'']
      else if c = CHR 0x0C then [CHR 0x5C, CHR ''f'']
      else if c = CHR 0x0A then [CHR 0x5C, CHR ''n'']
      else if c = CHR 0x0D then [CHR 0x5C, CHR ''r'']
      else if c = CHR 0x09 then [CHR 0x5C, CHR ''t'']
      else if (of_char c :: nat) < 32
        then [CHR 0x5C, CHR ''u'', CHR ''0'', CHR ''0'', hexDigit (of_char c div 16), hexDigit (of_char c mod 16)]
      else [c])"

definition jsonString :: "string \<Rightarrow> string" where
  "jsonString str = dquote @ concat (map jsonChar str) @ dquote"

definition jsonStringify :: "string list list \<Rightarrow> string" where
  "jsonStringify cmds =
     ''['' @ join '','' (map (\<lambda>c. ''['' @ join '','' (map jsonString c) @ '']'') cmds) @ '']''"

text \<open>The loop of \<open>robotpyCommands\<close>.\<close>

datatype ret = RetTrue | RetUndefined

fun runEach :: "world \<Rightarrow> string list list \<Rightarrow> state \<Rightarrow> (error + ret) \<times> state" where
  "runEach w [] s = (Inr RetUndefined, s)"
| "runEach w (c # cs) s =
     (case mustGetRootPath w of
        Inl e \<Rightarrow> (Inl e, s)
      | Inr rootPath \<Rightarrow>
          (case robotpyCommand w rootPath c s of
             (Inl e, s1) \<Rightarrow> (Inl e, s1)
           | (Inr u, s1) \<Rightarrow> runEach w cs s1))"

text \<open>Lines 657 to 664: \<open>True\<close> when the command may go on.\<close>

definition cancelRunning :: "world \<Rightarrow> string list list \<Rightarrow> state \<Rightarrow> bool \<times> state" where
  "cancelRunning w cmds s =
     (case currentProcess s of
        None \<Rightarrow> (True, s)
      | Some p \<Rightarrow>
          (case promptUserToKillCurrentProcess w s of
             (True, s1) \<Rightarrow>
               (True, killCurrentProcess
                  (appendLine (''Killing current process to run RobotPy commands: '' @ jsonStringify cmds) s1))
           | (False, s1) \<Rightarrow> (False, s1)))"

text \<open>\<open>robotpyCommands\<close>, once \<open>extensionInitialized\<close> has resolved.\<close>

definition robotpyCommands :: "world \<Rightarrow> string list list \<Rightarrow> state \<Rightarrow> (error + ret) \<times> state" where
  "robotpyCommands w cmds s =
     (case cancelRunning w cmds s of
        (False, s1) \<Rightarrow> (Inr RetTrue, s1)
      | (True, s1) \<Rightarrow>
          (case saveCurrentFile w s1 of
             (False, s2) \<Rightarrow>
               (Inr RetUndefined,
                emit (ShowWarning ''Failed to save current file. Results may not be what you expect.'') s2)
           | (True, s2) \<Rightarrow>
               (case ensureRobotPyReady w s2 of
                  (Inl e, s3) \<Rightarrow> (Inl e, s3)
                | (Inr False, s3) \<Rightarrow> (Inr RetUndefined, s3)
                | (Inr True, s3) \<Rightarrow> runEach w cmds s3)))"

text \<open>The commands that \<open>activate\<close> registers.\<close>

datatype command = Init | Sync | Sim | Deploy | DeploySkipTests

fun commandArgs :: "command \<Rightarrow> string list list" where
  "commandArgs Init = [[''init'']]"
| "commandArgs Sync = [[''project'', ''update-robotpy''], [''sync'']]"
| "commandArgs Sim = [[''sim'']]"
| "commandArgs Deploy = [[''deploy'']]"
| "commandArgs DeploySkipTests = [[''deploy'', ''--skip-tests'']]"

section \<open>What a call captures\<close>

text \<open>The text that the \<open>data\<close> handlers of one call add to \<open>stdout\<close> and to \<open>stderr\<close>.\<close>

definition stdoutOf :: "happening list \<Rightarrow> string" where
  "stdoutOf chs = concat (map (\<lambda>ch. case ch of StdoutData d \<Rightarrow> d | StderrData d \<Rightarrow> [] | Elsewhere ev \<Rightarrow> []) chs)"

definition stderrOf :: "happening list \<Rightarrow> string" where
  "stderrOf chs = concat (map (\<lambda>ch. case ch of StdoutData d \<Rightarrow> [] | StderrData d \<Rightarrow> d | Elsewhere ev \<Rightarrow> []) chs)"

section \<open>Concrete inputs\<close>

definition initialState :: state where
  "initialState = \<lparr>currentProcess = None, terminalOpen = False, inputBuffer = [], nextProc = 0,
     listeners = [], trace = []\<rparr>"

text \<open>A state in which the simulator is running in the terminal.\<close>

definition simRunning :: running where
  "simRunning = \<lparr>proc = 0, cmdString = ''python -m robotpy sim'', prettyName = ''robotpy sim''\<rparr>"

definition simOpts :: ExecFancyOptions where
  "simOpts = \<lparr>cwd = Some ''/proj'', showTerminal = True, silent = False, optPrettyName = Some ''robotpy sim''\<rparr>"

definition busyState :: state where
  "busyState = \<lparr>currentProcess = Some simRunning, terminalOpen = True, inputBuffer = [], nextProc = 1,
     listeners = [(0, simOpts, ''python -m robotpy sim'')], trace = []\<rparr>"

text \<open>A POSIX machine on which every spawned process behaves as \<open>oc\<close>, the folder \<open>.venv\<close>
  exists or not, the user answers every dialog with \<open>answer\<close>, and the active editor is \<open>editor\<close>.\<close>

definition testWorld :: "outcome \<Rightarrow> bool \<Rightarrow> string option \<Rightarrow> bool option \<Rightarrow> world" where
  "testWorld oc venv answer editor =
     \<lparr>isWindows = False,
      pathJoin = join ''/'',
      readFile = (\<lambda>p. Inr ''[tool.robotpy]''),
      existsSync = (\<lambda>p. venv),
      spawnOutcome = (\<lambda>h exe argv d. oc),
      userPicks = (\<lambda>msg items. answer),
      whileAsked = (\<lambda>msg. []),
      getExecutionPolicy = Inl (Error ''spawn powershell ENOENT''),
      workspaceFolders = Some [''/proj''],
      activeEditor = editor,
      configUpdate = (\<lambda>k v. None),
      rmSync = (\<lambda>p. None),
      bigNumber = (\<lambda>ds. \<infinity>),
      bigNumberText = (\<lambda>ds. ''Infinity'')\<rparr>"

definition pythonPrints :: "string \<Rightarrow> outcome" where
  "pythonPrints v = \<lparr>during = [StdoutData (''Python '' @ v @ [LF])], ending = Close (Some 0) None\<rparr>"

definition notFound :: outcome where
  "notFound = \<lparr>during = [], ending = SpawnError (Error ''spawn ENOENT'')\<rparr>"

definition exitsWith :: "int \<Rightarrow> outcome" where
  "exitsWith n = \<lparr>during = [], ending = Close (Some n) None\<rparr>"

definition killedBy :: "string \<Rightarrow> outcome" where
  "killedBy sg = \<lparr>during = [], ending = Close None (Some sg)\<rparr>"

text \<open>The same machine, on which the simulator exits by itself while the dialog that asks
  whether to cancel it is open, before the user picks Yes.\<close>

definition simEndsWhileAsked :: world where
  "simEndsWhileAsked =
     (testWorld notFound False (Some ''Yes'') None)\<lparr>whileAsked := (\<lambda>msg. [ProcClose 0 (Some 0) None])\<rparr>"

text \<open>The simulator is running; a deployment is run from the terminal, the user accepts to
  cancel the simulator, and \<open>execFancy\<close> has spawned the deployment and waits for it.\<close>

definition deployStarted :: state where
  "deployStarted =
     snd (execFancy_begin (testWorld (exitsWith 0) False (Some ''Yes'') None)
            ''py'' [''-m'', ''robotpy'', ''deploy''] (terminalOpts ''/proj'') busyState)"

section \<open>State bookkeeping\<close>

lemma emit_fields [simp]:
  "currentProcess (emit e s) = currentProcess s"
  "nextProc (emit e s) = nextProc s"
  "inputBuffer (emit e s) = inputBuffer s"
  "terminalOpen (emit e s) = terminalOpen s"
  "listeners (emit e s) = listeners s"
  "trace (emit e s) = trace s @ [e]"
  by (simp_all add: emit_def)

lemma appendLine_fields [simp]:
  "currentProcess (appendLine l s) = currentProcess s"
  "nextProc (appendLine l s) = nextProc s"
  "inputBuffer (appendLine l s) = inputBuffer s"
  "terminalOpen (appendLine l s) = terminalOpen s"
  "listeners (appendLine l s) = listeners s"
  "trace (appendLine l s) = trace s @ [Append (l @ [LF])]"
  by (simp_all add: appendLine_def)

lemma maybeWriteToTerminal_fields [simp]:
  "currentProcess (maybeWriteToTerminal opts str s) = currentProcess s"
  "nextProc (maybeWriteToTerminal opts str s) = nextProc s"
  "inputBuffer (maybeWriteToTerminal opts str s) = inputBuffer s"
  "terminalOpen (maybeWriteToTerminal opts str s) = terminalOpen s"
  "listeners (maybeWriteToTerminal opts str s) = listeners s"
  "trace (maybeWriteToTerminal opts str s) =
     trace s @ (if silent opts then [] else [Fire (normalizeNewlines str)])"
  by (simp_all add: maybeWriteToTerminal_def)

lemma killCurrentProcess_fields [simp]:
  "currentProcess (killCurrentProcess s) = None"
  "nextProc (killCurrentProcess s) = nextProc s"
  "inputBuffer (killCurrentProcess s) = inputBuffer s"
  "terminalOpen (killCurrentProcess s) = terminalOpen s"
  "listeners (killCurrentProcess s) = listeners s"
  "trace (killCurrentProcess s) =
     trace s @ (case currentProcess s of None \<Rightarrow> [] | Some p \<Rightarrow> [Kill (proc p)])"
  by (simp_all add: killCurrentProcess_def split: option.splits)

lemma getRobotPyTerminal_fields [simp]:
  "currentProcess (getRobotPyTerminal s) = currentProcess s"
  "nextProc (getRobotPyTerminal s) = nextProc s"
  "terminalOpen (getRobotPyTerminal s) = True"
  "listeners (getRobotPyTerminal s) = listeners s"
  "trace (getRobotPyTerminal s) = trace s @ (if terminalOpen s then [] else [CreateTerminal])"
  by (simp_all add: getRobotPyTerminal_def)

section \<open>The pseudo-terminal: input handling\<close>

lemma handleInput_activate:
  "matchesActivate (trim data) \<Longrightarrow> handleInput data s = s\<lparr>inputBuffer := []\<rparr>"
  by (simp add: handleInput_def)

text \<open>The endings that the specification lists are among those of the pattern.\<close>

lemma listed_endings_match:
  assumes "suffix w str"
    and "w \<in> {''Scripts/activate'', ''Scripts/activate.bat'', ''Scripts/activate.ps1'', ''bin/activate''}"
  shows "matchesActivate str"
proof -
  have "w \<in> set activateWords"
    using assms(2) by (auto simp add: activateWords_def)
  then show ?thesis
    using assms(1) by (auto simp add: matchesActivate_def list_ex_iff)
qed

lemma not_activate_short:
  "length str < 12 \<Longrightarrow> \<not> matchesActivate str"
  by (auto simp add: matchesActivate_def activateWords_def list_ex_iff dest!: suffix_length_le)

lemma length_trim_le: "length (trim str) \<le> length str"
proof -
  have "length (trim str) \<le> length (dropWhile isWhiteSpace str)"
    unfolding trim_def
    using length_dropWhile_le [of isWhiteSpace "rev (dropWhile isWhiteSpace str)"] by simp
  also have "\<dots> \<le> length str" by (rule length_dropWhile_le)
  finally show ?thesis .
qed

lemma short_input_not_activate:
  "length data < 12 \<Longrightarrow> \<not> matchesActivate (trim data)"
  using length_trim_le [of data] by (intro not_activate_short) simp

lemma handleInput_enter:
  "handleInput [CR] s = (stdinWrite (inputBuffer s @ [LF]) (emit (Fire [CR, LF]) s))\<lparr>inputBuffer := []\<rparr>"
  by (simp add: handleInput_def short_input_not_activate CR_def)

lemma handleInput_backspace:
  "bs = [CHR 0x08] \<or> bs = [CHR 0x7F] \<Longrightarrow>
   handleInput bs s =
     (if length (inputBuffer s) > 0
      then emit (Fire [CHR 0x08, CHR 0x20, CHR 0x08]) (s\<lparr>inputBuffer := butlast (inputBuffer s)\<rparr>)
      else s)"
  by (auto simp add: handleInput_def short_input_not_activate CR_def LF_def)

lemma handleInput_abc:
  "handleInput ''abc'' s = emit (Fire ''abc'') (s\<lparr>inputBuffer := inputBuffer s @ ''abc''\<rparr>)"
  by (simp add: handleInput_def short_input_not_activate CR_def LF_def)

lemma activate_example:
  "matchesActivate (trim (''source /home/user/robot/.venv/bin/activate'' @ [LF]))"
  by (simp add: matchesActivate_def activateWords_def trim_def isWhiteSpace_def suffix_to_prefix LF_def)

text \<open>
  Claim C7.  With an empty buffer and a running process, the inputs \<open>"abc"\<close>, a backspace
  (0x08 or 0x7f) and \<open>"\r"\<close> echo the three characters, the erase sequence and a line break,
  write exactly \<open>"ab\n"\<close> to the standard input of the running process, and leave the buffer
  empty.  A backspace on an empty buffer changes nothing: the state, and so the buffer and
  everything sent to the terminal, stays as it was.
\<close>

theorem abc_backspace_enter:
  assumes "inputBuffer s = []" and "currentProcess s = Some p"
    and "bs = [CHR 0x08] \<or> bs = [CHR 0x7F]"
  shows "trace (handleInput [CR] (handleInput bs (handleInput ''abc'' s)))
           = trace s @ [Fire ''abc'', Fire [CHR 0x08, CHR 0x20, CHR 0x08], Fire [CR, LF],
                        StdinWrite (proc p) (''ab'' @ [LF])]
       \<and> inputBuffer (handleInput [CR] (handleInput bs (handleInput ''abc'' s))) = []
       \<and> handleInput bs s = s"
  using assms
  by (simp add: handleInput_enter handleInput_backspace [OF assms(3)] handleInput_abc stdinWrite_def)

theorem abc_backspace_enter_witness:
  "inputBuffer busyState = [] \<and> currentProcess busyState = Some simRunning
   \<and> trace (handleInput [CR] (handleInput [CHR 0x7F] (handleInput ''abc'' busyState)))
       = [Fire ''abc'', Fire [CHR 0x08, CHR 0x20, CHR 0x08], Fire [CR, LF], StdinWrite 0 (''ab'' @ [LF])]
   \<and> inputBuffer (handleInput [CR] (handleInput [CHR 0x7F] (handleInput ''abc'' busyState))) = []
   \<and> handleInput [CHR 0x7F] busyState = busyState"
proof -
  have h: "inputBuffer busyState = []" "currentProcess busyState = Some simRunning"
    by (simp_all add: busyState_def)
  show ?thesis
    using h abc_backspace_enter [OF h, of "[CHR 0x7F]"]
    by (simp add: busyState_def simRunning_def)
qed

text \<open>
  Claim C8.  An input whose trimmed text matches the activation pattern is discarded:
  nothing is written to the standard input of any process and nothing is sent to the
  terminal (the trace of effects is unchanged), the running process is untouched, and the
  input is not added to the line buffer.
\<close>

theorem activation_input_discarded:
  assumes "matchesActivate (trim data)"
  shows "trace (handleInput data s) = trace s
       \<and> currentProcess (handleInput data s) = currentProcess s
       \<and> inputBuffer (handleInput data s) = []"
  by (simp add: handleInput_activate [OF assms])

theorem activation_input_discarded_witness:
  "matchesActivate (trim (''source /home/user/robot/.venv/bin/activate'' @ [LF]))
   \<and> trace (handleInput (''source /home/user/robot/.venv/bin/activate'' @ [LF]) busyState) = []
   \<and> currentProcess (handleInput (''source /home/user/robot/.venv/bin/activate'' @ [LF]) busyState)
       = Some simRunning
   \<and> inputBuffer (handleInput (''source /home/user/robot/.venv/bin/activate'' @ [LF]) busyState) = []"
  using activate_example activation_input_discarded [OF activate_example, of busyState]
  by (simp add: busyState_def)

text \<open>
  Claim C10.  When the filter matches, the whole pending line is dropped: whatever the buffer
  held, it is empty afterwards, so what the user had typed is lost and a following Enter sends
  only a line feed to the running process.
\<close>

theorem activation_input_resets_buffer:
  assumes "matchesActivate (trim data)"
  shows "inputBuffer (handleInput data s) = []
       \<and> (\<forall>p. currentProcess s = Some p \<longrightarrow>
            trace (handleInput [CR] (handleInput data s))
              = trace s @ [Fire [CR, LF], StdinWrite (proc p) [LF]])"
  by (simp add: handleInput_activate [OF assms] handleInput_enter stdinWrite_def)

theorem activation_input_resets_buffer_witness:
  "matchesActivate (trim (''source /home/user/robot/.venv/bin/activate'' @ [LF]))
   \<and> inputBuffer (handleInput ''abc'' busyState) = ''abc''
   \<and> inputBuffer (handleInput (''source /home/user/robot/.venv/bin/activate'' @ [LF])
        (handleInput ''abc'' busyState)) = []
   \<and> currentProcess (handleInput ''abc'' busyState) = Some simRunning
   \<and> trace (handleInput [CR] (handleInput (''source /home/user/robot/.venv/bin/activate'' @ [LF])
        (handleInput ''abc'' busyState)))
       = [Fire ''abc'', Fire [CR, LF], StdinWrite 0 [LF]]"
  using activate_example
    activation_input_resets_buffer [OF activate_example, of "handleInput ''abc'' busyState"]
  by (simp add: handleInput_abc busyState_def simRunning_def)

section \<open>Events: bookkeeping\<close>

lemma stdinWrite_fields [simp]:
  "currentProcess (stdinWrite str s) = currentProcess s"
  "nextProc (stdinWrite str s) = nextProc s"
  "listeners (stdinWrite str s) = listeners s"
  "terminalOpen (stdinWrite str s) = terminalOpen s"
  by (simp_all add: stdinWrite_def split: option.splits)

lemma stdinWrite_trace: "prefix (trace s) (trace (stdinWrite str s))"
  by (simp add: stdinWrite_def split: option.splits)

lemma handleInput_fields [simp]:
  "nextProc (handleInput data s) = nextProc s"
  "listeners (handleInput data s) = listeners s"
  "terminalOpen (handleInput data s) = terminalOpen s"
  by (simp_all add: handleInput_def)

lemma handleInput_trace: "prefix (trace s) (trace (handleInput data s))"
proof -
  have "prefix (trace s) (trace (stdinWrite (inputBuffer s @ [LF]) (emit (Fire [CR, LF]) s)))"
    using stdinWrite_trace [of "emit (Fire [CR, LF]) s" "inputBuffer s @ [LF]"]
    by (auto dest: append_prefixD)
  then show ?thesis
    by (simp add: handleInput_def split: option.splits)
qed

lemma pty_close_fields [simp]:
  "currentProcess (pty_close s) = None"
  "nextProc (pty_close s) = nextProc s"
  "listeners (pty_close s) = listeners s"
  by (simp_all add: pty_close_def)

lemma pty_close_trace: "prefix (trace s) (trace (pty_close s))"
  by (simp add: pty_close_def split: option.splits)

lemma dropListeners_fields [simp]:
  "currentProcess (dropListeners h s) = currentProcess s"
  "nextProc (dropListeners h s) = nextProc s"
  "inputBuffer (dropListeners h s) = inputBuffer s"
  "terminalOpen (dropListeners h s) = terminalOpen s"
  "trace (dropListeners h s) = trace s"
  "listeners (dropListeners h s) = filter (\<lambda>l. fst l \<noteq> h) (listeners s)"
  by (simp_all add: dropListeners_def)

lemma onClose_fields [simp]:
  "currentProcess (snd (onClose opts cmdStr code signal s)) = None"
  "nextProc (snd (onClose opts cmdStr code signal s)) = nextProc s"
  "listeners (snd (onClose opts cmdStr code signal s)) = listeners s"
  "terminalOpen (snd (onClose opts cmdStr code signal s)) = terminalOpen s"
  "inputBuffer (snd (onClose opts cmdStr code signal s)) = inputBuffer s"
  "trace (snd (onClose opts cmdStr code signal s)) =
     trace s @ [Append (closeMsg code signal @ '': '' @ cmdStr @ [LF])]
       @ (if silent opts then [] else [Fire (normalizeNewlines ([CR, LF] @ closeMsg code signal @ [CR, LF]))])"
  by (simp_all add: onClose_def Let_def)

lemma onError_fields [simp]:
  "currentProcess (snd (onError e s)) = None"
  "nextProc (snd (onError e s)) = nextProc s"
  "listeners (snd (onError e s)) = listeners s"
  "terminalOpen (snd (onError e s)) = terminalOpen s"
  "inputBuffer (snd (onError e s)) = inputBuffer s"
  "trace (snd (onError e s)) = trace s"
  by (simp_all add: onError_def)

lemma deliver_nextProc [simp]: "nextProc (deliver s ev) = nextProc s"
  by (cases ev) (simp_all split: option.splits)

lemma deliver_trace: "prefix (trace s) (trace (deliver s ev))"
  by (cases ev) (simp_all add: handleInput_trace pty_close_trace split: option.splits)

lemma deliverAll_Nil [simp]: "deliverAll [] s = s"
  by (simp add: deliverAll_def)

lemma deliverAll_Cons [simp]: "deliverAll (ev # evs) s = deliverAll evs (deliver s ev)"
  by (simp add: deliverAll_def)

lemma deliverAll_nextProc [simp]: "nextProc (deliverAll evs s) = nextProc s"
  by (induction evs arbitrary: s) simp_all

lemma deliverAll_trace: "prefix (trace s) (trace (deliverAll evs s))"
proof (induction evs arbitrary: s)
  case Nil
  show ?case by simp
next
  case (Cons ev evs)
  have "prefix (trace s) (trace (deliver s ev))" by (rule deliver_trace)
  also have "prefix \<dots> (trace (deliverAll evs (deliver s ev)))" by (rule Cons.IH)
  finally show ?case by simp
qed

section \<open>The process supervisor: arbitration and completion\<close>

lemma prompt_running:
  "currentProcess s = Some p \<Longrightarrow>
   promptUserToKillCurrentProcess w s =
     (userPicks w (cancelQuestion p) [''Yes'', ''No''] = Some ''Yes'',
      deliverAll (whileAsked w (cancelQuestion p)) (emit (ShowWarning (cancelQuestion p)) s))"
  by (simp add: promptUserToKillCurrentProcess_def ask_def)

lemma prompt_nextProc [simp]: "nextProc (snd (promptUserToKillCurrentProcess w s)) = nextProc s"
  by (simp add: promptUserToKillCurrentProcess_def ask_def split: option.splits)

lemma prompt_trace: "prefix (trace s) (trace (snd (promptUserToKillCurrentProcess w s)))"
proof (cases "currentProcess s")
  case None
  then show ?thesis by (simp add: promptUserToKillCurrentProcess_def)
next
  case (Some p)
  have "prefix (trace s) (trace (emit (ShowWarning (cancelQuestion p)) s))" by simp
  also have "prefix \<dots> (trace (deliverAll (whileAsked w (cancelQuestion p))
      (emit (ShowWarning (cancelQuestion p)) s)))"
    by (rule deliverAll_trace)
  finally show ?thesis by (simp add: prompt_running [OF Some])
qed

lemma resolveRunning_idle:
  "currentProcess s = None \<Longrightarrow> resolveRunning w opts cmdStr s = (Inr (), s)"
  by (simp add: resolveRunning_def)



lemma resolveRunning_accepted:
  "currentProcess s = Some p \<Longrightarrow> \<not> silent opts \<Longrightarrow>
   userPicks w (cancelQuestion p) [''Yes'', ''No''] = Some ''Yes'' \<Longrightarrow>
   currentProcess (snd (promptUserToKillCurrentProcess w s)) = Some q \<Longrightarrow>
   resolveRunning w opts cmdStr s =
     (Inr (), maybeWriteToTerminal opts ([CR, LF] @ ''Process killed'' @ [CR, LF])
        (killCurrentProcess
          (appendLine (''Process '' @ dquote @ cmdString q @ dquote @ '' killed in order to run: '' @ cmdStr)
            (snd (promptUserToKillCurrentProcess w s)))))"
  by (simp add: resolveRunning_def prompt_running)



lemma resolveRunning_nextProc:
  "nextProc (snd (resolveRunning w opts cmdStr s)) = nextProc s"
proof (cases "currentProcess s")
  case None
  then show ?thesis by (simp add: resolveRunning_def)
next
  case (Some p)
  have "nextProc (snd (promptUserToKillCurrentProcess w s)) = nextProc s" by simp
  then show ?thesis
    using Some
    by (cases "promptUserToKillCurrentProcess w s")
       (auto simp add: resolveRunning_def split: option.splits)
qed

text \<open>The state in which \<open>execFancy\<close> leaves the new process running.\<close>

lemma execFancy_begin_started:
  "resolveRunning w opts (mkCmdString exe argv) (getRobotPyTerminal s) = (Inr (), s1) \<Longrightarrow>
   execFancy_begin w exe argv opts s = (Inr (nextProc s1), s2) \<Longrightarrow>
   currentProcess s2 = Some \<lparr>proc = nextProc s1, cmdString = mkCmdString exe argv,
       prettyName = mkPrettyName opts (mkCmdString exe argv)\<rparr>
   \<and> listeners s2 = (nextProc s1, opts, mkCmdString exe argv) # listeners s1
   \<and> trace s2 = trace s1 @ [Append (''Running: '' @ mkCmdString exe argv @ [LF])]
       @ (if silent opts then [] else [Fire (normalizeNewlines (''$ '' @ mkCmdString exe argv @ [CR, LF]))])
       @ (if showTerminal opts then [TerminalShow] else [])
       @ [Spawn (nextProc s1) exe argv (cwd opts)]"
  by (auto simp add: execFancy_begin_def Let_def)

lemma execFancy_begin_Inr:
  "resolveRunning w opts (mkCmdString exe argv) (getRobotPyTerminal s) = (Inr (), s1) \<Longrightarrow>
   \<exists>s2. execFancy_begin w exe argv opts s = (Inr (nextProc s1), s2)"
  by (simp add: execFancy_begin_def Let_def)


lemma execFancy_begin_resolved:
  "execFancy_begin w exe argv opts s = (Inr h, s2) \<Longrightarrow>
   \<exists>s1. resolveRunning w opts (mkCmdString exe argv) (getRobotPyTerminal s) = (Inr (), s1)"
  by (cases "resolveRunning w opts (mkCmdString exe argv) (getRobotPyTerminal s)")
     (auto simp add: execFancy_begin_def Let_def split: sum.splits)

lemma execFancy_begin_idle:
  "currentProcess s = None \<Longrightarrow> \<exists>s1. execFancy_begin w exe argv opts s = (Inr (nextProc s), s1)"
proof -
  assume "currentProcess s = None"
  then have "currentProcess (getRobotPyTerminal s) = None" by simp
  from execFancy_begin_Inr [OF resolveRunning_idle [OF this]]
  show ?thesis by simp
qed

lemma execFancy_begin_handle:
  assumes "execFancy_begin w exe argv opts s = (Inr h, s1)"
  shows "h = nextProc s"
proof -
  from execFancy_begin_resolved [OF assms]
  obtain s0 where res: "resolveRunning w opts (mkCmdString exe argv) (getRobotPyTerminal s) = (Inr (), s0)"
    by blast
  have "nextProc s0 = nextProc s"
    using resolveRunning_nextProc [of w opts "mkCmdString exe argv" "getRobotPyTerminal s"] res by simp
  with execFancy_begin_Inr [OF res] assms show ?thesis by auto
qed


lemma execFancy_Inr:
  "execFancy_begin w exe argv opts s = (Inr h, s1) \<Longrightarrow>
   execFancy w exe argv opts s
     = execFancy_finish h opts (mkCmdString exe argv) (spawnOutcome w h exe argv (cwd opts)) s1"
  by (simp add: execFancy_def)

lemma execFancy_finish_slot: "currentProcess (snd (execFancy_finish h opts cmdStr oc s)) = None"
proof -
  obtain c s1 where f: "foldl (onData opts) (\<lparr>stdout = [], stderr = []\<rparr>, s) (during oc) = (c, s1)"
    by (cases "foldl (onData opts) (\<lparr>stdout = [], stderr = []\<rparr>, s) (during oc)") auto
  show ?thesis
  proof (cases "ending oc")
    case (Close code signal)
    obtain r s2 where o: "onClose opts cmdStr code signal s1 = (r, s2)"
      by (cases "onClose opts cmdStr code signal s1") auto
    with onClose_fields(1) [of opts cmdStr code signal s1] have "currentProcess s2 = None" by simp
    with f Close o show ?thesis
      by (simp add: execFancy_finish_def split: settle.splits)
  next
    case (SpawnError e)
    with f show ?thesis
      by (simp add: execFancy_finish_def onError_def)
  qed
qed

lemma execFancy_finish_fst:
  "fst (execFancy_finish h opts cmdStr oc s) =
     (case ending oc of
        Close code signal \<Rightarrow>
          if code = Some 0
          then Inr (stdout (fst (foldl (onData opts) (\<lparr>stdout = [], stderr = []\<rparr>, s) (during oc))),
                    stderr (fst (foldl (onData opts) (\<lparr>stdout = [], stderr = []\<rparr>, s) (during oc))))
          else Inl (Error (closeMsg code signal @ '': '' @ mkPrettyName opts cmdStr))
      | SpawnError e \<Rightarrow> Inl e)"
  by (simp add: execFancy_finish_def onClose_def onError_def Let_def split: prod.splits procEnd.splits)

lemma sublist_middle: "sublist ys (xs @ ys @ zs)"
  by (auto simp add: sublist_def)

lemma foldl_onData_fst:
  "fst (foldl (onData opts) (c, s) chs)
     = c\<lparr>stdout := stdout c @ stdoutOf chs, stderr := stderr c @ stderrOf chs\<rparr>"
proof (induction chs arbitrary: c s)
  case Nil
  show ?case by (simp add: stdoutOf_def stderrOf_def)
next
  case (Cons ch chs)
  show ?case
    by (cases ch) (simp_all add: Cons.IH stdoutOf_def stderrOf_def)
qed

lemma execFancy_idle:
  assumes "currentProcess s = None"
  shows "\<exists>s1. execFancy w exe argv opts s =
           ((case ending (spawnOutcome w (nextProc s) exe argv (cwd opts)) of
               Close code signal \<Rightarrow>
                 if code = Some 0
                 then Inr (stdoutOf (during (spawnOutcome w (nextProc s) exe argv (cwd opts))),
                           stderrOf (during (spawnOutcome w (nextProc s) exe argv (cwd opts))))
                 else Inl (Error (closeMsg code signal @ '': '' @ mkPrettyName opts (mkCmdString exe argv)))
             | SpawnError e \<Rightarrow> Inl e), s1)
         \<and> currentProcess s1 = None"
proof -
  obtain s0 where b: "execFancy_begin w exe argv opts s = (Inr (nextProc s), s0)"
    using execFancy_begin_idle [OF assms] by blast
  let ?run = "execFancy_finish (nextProc s) opts (mkCmdString exe argv)
      (spawnOutcome w (nextProc s) exe argv (cwd opts)) s0"
  have e: "execFancy w exe argv opts s = ?run"
    by (rule execFancy_Inr [OF b])
  have "execFancy w exe argv opts s = (fst ?run, snd ?run)"
    by (simp add: e)
  moreover have "currentProcess (snd ?run) = None"
    by (rule execFancy_finish_slot)
  ultimately show ?thesis
    by (simp add: execFancy_finish_fst foldl_onData_fst split: procEnd.splits)
qed


text \<open>
  Claim C3.  For a process that \<open>execFancy\<close> has started: exit code 0 makes the call return
  the captured output; a code \<open>n\<close> other than 0 makes it throw an error whose message contains
  \<open>exited with code n\<close>; a \<open>null\<close> code with signal \<open>sg\<close> makes it throw an error whose message
  contains \<open>killed with signal sg\<close>, and so \<open>sg\<close>; an \<open>error\<close> event makes it throw that very
  error.
\<close>

theorem completion_results:
  assumes "execFancy_begin w exe argv opts s = (Inr h, s1)"
  shows "(\<forall>sg. ending (spawnOutcome w h exe argv (cwd opts)) = Close (Some 0) sg \<longrightarrow>
            (\<exists>out err. fst (execFancy w exe argv opts s) = Inr (out, err)))
       \<and> (\<forall>n sg. ending (spawnOutcome w h exe argv (cwd opts)) = Close (Some n) sg \<and> n \<noteq> 0 \<longrightarrow>
            (\<exists>m. fst (execFancy w exe argv opts s) = Inl (Error m)
                 \<and> sublist (''exited with code '' @ showInt n) m))
       \<and> (\<forall>sg. ending (spawnOutcome w h exe argv (cwd opts)) = Close None (Some sg) \<longrightarrow>
            (\<exists>m. fst (execFancy w exe argv opts s) = Inl (Error m)
                 \<and> sublist (''killed with signal '' @ sg) m \<and> sublist sg m))
       \<and> (\<forall>e. ending (spawnOutcome w h exe argv (cwd opts)) = SpawnError e \<longrightarrow>
            fst (execFancy w exe argv opts s) = Inl e)"
proof (intro conjI allI impI)
  note run = execFancy_Inr [OF assms]
  {
    fix sg assume "ending (spawnOutcome w h exe argv (cwd opts)) = Close (Some 0) sg"
    then show "\<exists>out err. fst (execFancy w exe argv opts s) = Inr (out, err)"
      by (simp add: run execFancy_finish_fst)
  next
    fix n sg assume "ending (spawnOutcome w h exe argv (cwd opts)) = Close (Some n) sg \<and> n \<noteq> 0"
    then have "fst (execFancy w exe argv opts s)
        = Inl (Error (''Process '' @ (''exited with code '' @ showInt n)
                        @ ('': '' @ mkPrettyName opts (mkCmdString exe argv))))"
      by (simp add: run execFancy_finish_fst closeMsg_def)
    then show "\<exists>m. fst (execFancy w exe argv opts s) = Inl (Error m)
        \<and> sublist (''exited with code '' @ showInt n) m"
      using sublist_middle by blast
  next
    fix sg assume "ending (spawnOutcome w h exe argv (cwd opts)) = Close None (Some sg)"
    then have m: "fst (execFancy w exe argv opts s)
        = Inl (Error (''Process was '' @ (''killed with signal '' @ sg)
                        @ ('': '' @ mkPrettyName opts (mkCmdString exe argv))))"
      by (simp add: run execFancy_finish_fst closeMsg_def)
    have "sublist sg ((''Process was '' @ ''killed with signal '') @ sg
                        @ ('': '' @ mkPrettyName opts (mkCmdString exe argv)))"
      by (rule sublist_middle)
    then have "sublist sg (''Process was '' @ (''killed with signal '' @ sg)
                        @ ('': '' @ mkPrettyName opts (mkCmdString exe argv)))"
      by simp
    with m show "\<exists>m. fst (execFancy w exe argv opts s) = Inl (Error m)
        \<and> sublist (''killed with signal '' @ sg) m \<and> sublist sg m"
      using sublist_middle by blast
  next
    fix e assume "ending (spawnOutcome w h exe argv (cwd opts)) = SpawnError e"
    then show "fst (execFancy w exe argv opts s) = Inl e"
      by (simp add: run execFancy_finish_fst)
  }
qed

subsection \<open>The supervisor on concrete runs\<close>

lemma testWorld_fields [simp]:
  "isWindows (testWorld oc venv answer editor) = False"
  "pathJoin (testWorld oc venv answer editor) = join ''/''"
  "readFile (testWorld oc venv answer editor) p = Inr ''[tool.robotpy]''"
  "existsSync (testWorld oc venv answer editor) p = venv"
  "spawnOutcome (testWorld oc venv answer editor) h exe argv d = oc"
  "userPicks (testWorld oc venv answer editor) msg items = answer"
  "whileAsked (testWorld oc venv answer editor) msg = []"
  "workspaceFolders (testWorld oc venv answer editor) = Some [''/proj'']"
  "activeEditor (testWorld oc venv answer editor) = editor"
  "configUpdate (testWorld oc venv answer editor) k v = None"
  "rmSync (testWorld oc venv answer editor) p = None"
  "bigNumber (testWorld oc venv answer editor) ds = \<infinity>"
  "bigNumberText (testWorld oc venv answer editor) ds = ''Infinity''"
  by (simp_all add: testWorld_def)

lemma simEndsWhileAsked_fields [simp]:
  "userPicks simEndsWhileAsked msg items = Some ''Yes''"
  "whileAsked simEndsWhileAsked msg = [ProcClose 0 (Some 0) None]"
  by (simp_all add: simEndsWhileAsked_def testWorld_def)

lemma initial_facts:
  "currentProcess initialState = None" "nextProc initialState = 0" "trace initialState = []"
  "\<not> terminalOpen initialState" "listeners initialState = []"
  by (simp_all add: initialState_def)

lemma busy_facts:
  "currentProcess busyState = Some simRunning" "terminalOpen busyState" "trace busyState = []"
  "nextProc busyState = 1" "listeners busyState = [(0, simOpts, ''python -m robotpy sim'')]"
  by (simp_all add: busyState_def)

lemma getRobotPyTerminal_busy: "getRobotPyTerminal busyState = busyState"
  by (simp add: getRobotPyTerminal_def busy_facts)

lemma version_cmdString: "mkCmdString ''py'' [''--version''] = ''py --version''"
  by (simp add: mkCmdString_def trim_def isWhiteSpace_def)

lemma deploy_cmdString: "mkCmdString ''py'' [''-m'', ''robotpy'', ''deploy''] = ''py -m robotpy deploy''"
  by (simp add: mkCmdString_def trim_def isWhiteSpace_def)

lemma sim_cmdString: "mkCmdString ''py'' [''-m'', ''robotpy'', ''sim''] = ''py -m robotpy sim''"
  by (simp add: mkCmdString_def trim_def isWhiteSpace_def)


lemma showInt_2: "showInt 2 = ''2''"
  by (simp add: showInt_def showNat.simps digitChar_def char_of_def bit_0)

lemma asked_quiet:
  "snd (promptUserToKillCurrentProcess (testWorld oc venv answer editor) busyState)
     = emit (ShowWarning (cancelQuestion simRunning)) busyState"
  by (simp add: prompt_running [OF busy_facts(1)])



theorem completion_results_witness:
  "fst (execFancy_begin (testWorld (pythonPrints ''3.12.1'') False None None) ''py'' [''--version''] silentOpts initialState) = Inr 0
   \<and> fst (execFancy (testWorld (pythonPrints ''3.12.1'') False None None) ''py'' [''--version''] silentOpts initialState)
       = Inr (''Python 3.12.1'' @ [LF], [])
   \<and> fst (execFancy (testWorld (exitsWith 2) False None None) ''py'' [''--version''] silentOpts initialState)
       = Inl (Error ''Process exited with code 2: py --version'')
   \<and> sublist ''2'' ''Process exited with code 2: py --version''
   \<and> fst (execFancy (testWorld (killedBy ''SIGTERM'') False None None) ''py'' [''--version''] silentOpts initialState)
       = Inl (Error ''Process was killed with signal SIGTERM: py --version'')
   \<and> sublist ''SIGTERM'' ''Process was killed with signal SIGTERM: py --version''
   \<and> fst (execFancy (testWorld notFound False None None) ''py'' [''--version''] silentOpts initialState)
       = Inl (Error ''spawn ENOENT'')"
proof -
  have b: "\<exists>s1. execFancy_begin (testWorld oc False None None) ''py'' [''--version''] silentOpts initialState
              = (Inr 0, s1)" for oc
    using execFancy_begin_idle [OF initial_facts(1)] by (simp add: initial_facts)
  obtain s1 where 1: "execFancy_begin (testWorld (pythonPrints ''3.12.1'') False None None) ''py'' [''--version'']
      silentOpts initialState = (Inr 0, s1)"
    using b by blast
  obtain s2 where 2: "execFancy_begin (testWorld (exitsWith 2) False None None) ''py'' [''--version'']
      silentOpts initialState = (Inr 0, s2)"
    using b by blast
  obtain s3 where 3: "execFancy_begin (testWorld (killedBy ''SIGTERM'') False None None) ''py'' [''--version'']
      silentOpts initialState = (Inr 0, s3)"
    using b by blast
  obtain s4 where 4: "execFancy_begin (testWorld notFound False None None) ''py'' [''--version'']
      silentOpts initialState = (Inr 0, s4)"
    using b by blast
  have e: "fst (execFancy (testWorld oc False None None) ''py'' [''--version''] silentOpts initialState) =
      (case ending oc of
         Close code signal \<Rightarrow>
           if code = Some 0 then Inr (stdoutOf (during oc), stderrOf (during oc))
           else Inl (Error (closeMsg code signal @ '': '' @ ''py --version''))
       | SpawnError e \<Rightarrow> Inl e)" for oc
    using execFancy_idle [OF initial_facts(1), of "testWorld oc False None None" "''py''" "[''--version'']" silentOpts]
    by (auto simp add: version_cmdString mkPrettyName_def silentOpts_def initial_facts split: procEnd.splits)
  have sub: "sublist ''2'' ''Process exited with code 2: py --version''"
    "sublist ''SIGTERM'' ''Process was killed with signal SIGTERM: py --version''"
    by (simp_all add: sublist_code)
  have f: "fst (execFancy_begin (testWorld (pythonPrints ''3.12.1'') False None None) ''py'' [''--version'']
      silentOpts initialState) = Inr 0"
    by (simp add: 1)
  have r1: "fst (execFancy (testWorld (pythonPrints ''3.12.1'') False None None) ''py'' [''--version''] silentOpts initialState)
       = Inr (''Python 3.12.1'' @ [LF], [])"
    by (simp add: e pythonPrints_def stdoutOf_def stderrOf_def)
  have r2: "fst (execFancy (testWorld (exitsWith 2) False None None) ''py'' [''--version''] silentOpts initialState)
       = Inl (Error ''Process exited with code 2: py --version'')"
    by (simp add: e exitsWith_def closeMsg_def showInt_2)
  have r3: "fst (execFancy (testWorld (killedBy ''SIGTERM'') False None None) ''py'' [''--version''] silentOpts initialState)
       = Inl (Error ''Process was killed with signal SIGTERM: py --version'')"
    by (simp add: e killedBy_def closeMsg_def)
  have r4: "fst (execFancy (testWorld notFound False None None) ''py'' [''--version''] silentOpts initialState)
       = Inl (Error ''spawn ENOENT'')"
    by (simp add: e notFound_def)
  from completion_results [OF 1] completion_results [OF 2] completion_results [OF 3] completion_results [OF 4]
    f r1 r2 r3 r4 sub
  show ?thesis
    by simp
qed

subsection \<open>The slot after a process was replaced\<close>

text \<open>At the moment a call settles, its own handler has just emptied the slot.\<close>

lemma execFancy_slot:
  "execFancy_begin w exe argv opts s = (Inr h, s1) \<Longrightarrow>
   currentProcess (snd (execFancy w exe argv opts s)) = None"
  by (simp add: execFancy_Inr execFancy_finish_slot)

text \<open>A \<open>close\<close> event of any process whose handlers are registered empties the slot, whichever
  process holds it; after an \<open>error\<close> event the handlers stay registered, so the \<open>close\<close> event
  that follows it does the same.\<close>

lemma late_close_clears_slot:
  "map_of (listeners s) h = Some (opts, cmdStr) \<Longrightarrow>
   currentProcess (deliver s (ProcClose h code signal)) = None"
  by simp

lemma error_keeps_handlers:
  "listeners (snd (onError e s)) = listeners s"
  by simp

lemma deployStarted_facts:
  "currentProcess deployStarted
     = Some \<lparr>proc = 1, cmdString = ''py -m robotpy deploy'', prettyName = ''py -m robotpy deploy''\<rparr>"
  "listeners deployStarted
     = [(1, terminalOpts ''/proj'', ''py -m robotpy deploy''), (0, simOpts, ''python -m robotpy sim'')]"
  "nextProc deployStarted = 2"
  "terminalOpen deployStarted"
proof -
  let ?w = "testWorld (exitsWith 0) False (Some ''Yes'') None"
  let ?asked = "emit (ShowWarning (cancelQuestion simRunning)) busyState"
  let ?s1 = "maybeWriteToTerminal (terminalOpts ''/proj'') ([CR, LF] @ ''Process killed'' @ [CR, LF])
        (killCurrentProcess
          (appendLine (''Process '' @ dquote @ cmdString simRunning @ dquote @ '' killed in order to run: ''
             @ mkCmdString ''py'' [''-m'', ''robotpy'', ''deploy'']) ?asked))"
  have res: "resolveRunning ?w (terminalOpts ''/proj'') (mkCmdString ''py'' [''-m'', ''robotpy'', ''deploy''])
      (getRobotPyTerminal busyState) = (Inr (), ?s1)"
    using resolveRunning_accepted [OF busy_facts(1), of "terminalOpts ''/proj''" ?w simRunning
        "mkCmdString ''py'' [''-m'', ''robotpy'', ''deploy'']"]
    by (simp add: getRobotPyTerminal_busy asked_quiet busy_facts terminalOpts_def)
  obtain s2 where s2: "execFancy_begin ?w ''py'' [''-m'', ''robotpy'', ''deploy''] (terminalOpts ''/proj'') busyState
      = (Inr (nextProc ?s1), s2)"
    using execFancy_begin_Inr [OF res] by blast
  then have d: "deployStarted = s2"
    by (simp add: deployStarted_def)
  from execFancy_begin_started [OF res s2]
  show "currentProcess deployStarted
     = Some \<lparr>proc = 1, cmdString = ''py -m robotpy deploy'', prettyName = ''py -m robotpy deploy''\<rparr>"
    and "listeners deployStarted
     = [(1, terminalOpts ''/proj'', ''py -m robotpy deploy''), (0, simOpts, ''python -m robotpy sim'')]"
    by (simp_all add: d busy_facts deploy_cmdString mkPrettyName_def terminalOpts_def)
  show "nextProc deployStarted = 2"
    using s2 res
    by (simp add: d [symmetric] deployStarted_def execFancy_begin_def Let_def busy_facts terminalOpts_def)
  show "terminalOpen deployStarted"
    using s2 res
    by (simp add: d [symmetric] deployStarted_def execFancy_begin_def Let_def busy_facts terminalOpts_def)
qed

text \<open>
  Claim C4.  The handlers of \<open>close\<close> and \<open>error\<close> do empty \<open>currentProcess\<close> before the call
  settles (lemmas \<open>execFancy_finish_slot\<close> and \<open>execFancy_slot\<close>), but they empty it whichever
  process holds it, so the slot does not tell whether something is running.  The simulator
  (process 0) is running; a deployment is run from the terminal and the user accepts to cancel
  the simulator: \<open>execFancy\<close> kills process 0, spawns the deployment (process 1) and puts it in
  the slot.  Then the \<open>close\<close> event of the killed simulator arrives, and its handler empties
  the slot, while process 1 has not ended.  From then on nothing is taken to be running:
  Ctrl-C in the terminal kills nothing, and a further call of \<open>execFancy\<close>, even a silent one,
  asks nothing and starts a third process beside the deployment.
\<close>

theorem stale_close_empties_slot:
  "currentProcess deployStarted
     = Some \<lparr>proc = 1, cmdString = ''py -m robotpy deploy'', prettyName = ''py -m robotpy deploy''\<rparr>
   \<and> map fst (listeners deployStarted) = [1, 0]
   \<and> currentProcess (deliver deployStarted (ProcClose 0 None (Some ''SIGTERM''))) = None
   \<and> map fst (listeners (deliver deployStarted (ProcClose 0 None (Some ''SIGTERM'')))) = [1]
   \<and> trace (deliver (deliver deployStarted (ProcClose 0 None (Some ''SIGTERM''))) (Input [CHR 0x03]))
       = trace (deliver deployStarted (ProcClose 0 None (Some ''SIGTERM''))) @ [Fire (''^C'' @ [CR, LF])]
   \<and> fst (execFancy_begin (testWorld (exitsWith 0) False None None) ''py'' [''-m'', ''robotpy'', ''sim''] silentOpts
        (deliver deployStarted (ProcClose 0 None (Some ''SIGTERM'')))) = Inr 2
   \<and> map fst (listeners (snd (execFancy_begin (testWorld (exitsWith 0) False None None) ''py''
        [''-m'', ''robotpy'', ''sim''] silentOpts (deliver deployStarted (ProcClose 0 None (Some ''SIGTERM''))))))
       = [2, 1]"
proof -
  define late where "late = deliver deployStarted (ProcClose 0 None (Some ''SIGTERM''))"
  let ?w = "testWorld (exitsWith 0) False None None"
  have late: "late = dropListeners 0 (snd (onClose simOpts ''python -m robotpy sim'' None (Some ''SIGTERM'')
      deployStarted))"
    by (simp add: late_def deployStarted_facts)
  have slot: "currentProcess late = None"
    by (simp only: late dropListeners_fields onClose_fields)
  have live: "listeners late = [(1, terminalOpts ''/proj'', ''py -m robotpy deploy'')]"
    by (simp add: late deployStarted_facts)
  have np: "nextProc late = 2"
    by (simp add: late deployStarted_facts)
  have opn: "terminalOpen late"
    by (simp add: late deployStarted_facts)
  have ctrlc: "trace (deliver late (Input [CHR 0x03])) = trace late @ [Fire (''^C'' @ [CR, LF])]"
  proof -
    have "\<not> matchesActivate (trim [CHR 0x03])"
      by (simp add: matchesActivate_def activateWords_def trim_def isWhiteSpace_def suffix_def)
    then have "deliver late (Input [CHR 0x03])
        = (killCurrentProcess (emit (Fire (''^C'' @ [CR, LF])) late))\<lparr>inputBuffer := []\<rparr>"
      using opn by (simp add: handleInput_def)
    then show ?thesis
      by (simp add: slot)
  qed
  have res: "resolveRunning ?w silentOpts (mkCmdString ''py'' [''-m'', ''robotpy'', ''sim''])
      (getRobotPyTerminal late) = (Inr (), getRobotPyTerminal late)"
    by (rule resolveRunning_idle) (simp add: slot)
  obtain s2 where s2: "execFancy_begin ?w ''py'' [''-m'', ''robotpy'', ''sim''] silentOpts late
      = (Inr (nextProc (getRobotPyTerminal late)), s2)"
    using execFancy_begin_Inr [OF res] by blast
  have third: "fst (execFancy_begin ?w ''py'' [''-m'', ''robotpy'', ''sim''] silentOpts late) = Inr 2"
    by (simp add: s2 np)
  have both: "map fst (listeners (snd (execFancy_begin ?w ''py'' [''-m'', ''robotpy'', ''sim''] silentOpts late)))
      = [2, 1]"
    using execFancy_begin_started [OF res s2] by (simp add: s2 np live)
  have started: "currentProcess deployStarted
     = Some \<lparr>proc = 1, cmdString = ''py -m robotpy deploy'', prettyName = ''py -m robotpy deploy''\<rparr>"
    "map fst (listeners deployStarted) = [1, 0]"
    by (simp_all add: deployStarted_facts)
  have after: "map fst (listeners late) = [1]"
    by (simp add: live)
  from started slot after ctrlc third both show ?thesis
    unfolding late_def by (intro conjI)
qed

section \<open>The interpreter locator: results\<close>

text \<open>Effects are only ever added.\<close>

lemma resolveRunning_trace:
  "prefix (trace s) (trace (snd (resolveRunning w opts cmdStr s)))"
proof (cases "currentProcess s")
  case None
  then show ?thesis by (simp add: resolveRunning_def)
next
  case (Some p)
  obtain k s1 where ask: "promptUserToKillCurrentProcess w s = (k, s1)"
    by (cases "promptUserToKillCurrentProcess w s") auto
  have p: "prefix (trace s) (trace s1)"
    using prompt_trace [of s w] ask by simp
  have "prefix (trace s1) (trace (snd (resolveRunning w opts cmdStr s))) \<or> silent opts"
    using Some ask by (auto simp add: resolveRunning_def split: option.splits)
  moreover have "silent opts \<Longrightarrow> ?thesis"
    using Some by (simp add: resolveRunning_def)
  ultimately show ?thesis
    using p by (auto intro: prefix_order.trans)
qed

lemma execFancy_begin_trace:
  "prefix (trace s) (trace (snd (execFancy_begin w exe argv opts s)))"
proof -
  have "prefix (trace s) (trace (getRobotPyTerminal s))" by simp
  also have "prefix \<dots> (trace (snd (resolveRunning w opts (mkCmdString exe argv) (getRobotPyTerminal s))))"
    by (rule resolveRunning_trace)
  also have "prefix \<dots> (trace (snd (execFancy_begin w exe argv opts s)))"
    by (cases "resolveRunning w opts (mkCmdString exe argv) (getRobotPyTerminal s)")
       (auto simp add: execFancy_begin_def Let_def split: sum.splits)
  finally show ?thesis .
qed

lemma onData_trace: "prefix (trace s) (trace (snd (onData opts (c, s) ch)))"
  by (cases ch) (simp_all add: deliver_trace)

lemma foldl_onData_trace:
  "prefix (trace s) (trace (snd (foldl (onData opts) (c, s) chs)))"
proof (induction chs arbitrary: c s)
  case Nil
  show ?case by simp
next
  case (Cons ch chs)
  obtain c1 s1 where step: "onData opts (c, s) ch = (c1, s1)"
    by (cases "onData opts (c, s) ch") auto
  have "prefix (trace s) (trace s1)"
    using onData_trace [of s opts c ch] step by simp
  also have "prefix \<dots> (trace (snd (foldl (onData opts) (c1, s1) chs)))"
    by (rule Cons.IH)
  finally show ?case by (simp add: step)
qed

lemma execFancy_finish_trace:
  "prefix (trace s) (trace (snd (execFancy_finish h opts cmdStr oc s)))"
proof -
  obtain c s1 where f: "foldl (onData opts) (\<lparr>stdout = [], stderr = []\<rparr>, s) (during oc) = (c, s1)"
    by (cases "foldl (onData opts) (\<lparr>stdout = [], stderr = []\<rparr>, s) (during oc)") auto
  have "prefix (trace s) (trace s1)"
    using foldl_onData_trace [of s opts "\<lparr>stdout = [], stderr = []\<rparr>" "during oc"] f by simp
  also have "prefix \<dots> (trace (snd (execFancy_finish h opts cmdStr oc s)))"
    using f by (simp add: execFancy_finish_def onClose_def onError_def Let_def split: procEnd.splits)
  finally show ?thesis .
qed

lemma execFancy_trace:
  "prefix (trace s) (trace (snd (execFancy w exe argv opts s)))"
proof (cases "execFancy_begin w exe argv opts s")
  case (Pair r s1)
  have p: "prefix (trace s) (trace s1)"
    using execFancy_begin_trace [of s w exe argv opts] Pair by simp
  show ?thesis
  proof (cases r)
    case (Inl e)
    with Pair p show ?thesis by (simp add: execFancy_def)
  next
    case (Inr h)
    with Pair have "execFancy w exe argv opts s
        = execFancy_finish h opts (mkCmdString exe argv) (spawnOutcome w h exe argv (cwd opts)) s1"
      by (simp add: execFancy_def)
    with p execFancy_finish_trace [of s1 h opts "mkCmdString exe argv" "spawnOutcome w h exe argv (cwd opts)"]
    show ?thesis by (auto intro: prefix_order.trans)
  qed
qed

lemma tryCandidate_trace:
  "prefix (trace s) (trace (snd (tryCandidate w c s)))"
proof (cases c)
  case Nil
  then show ?thesis by (simp add: tryCandidate_def)
next
  case (Cons executable argv)
  then show ?thesis
    using execFancy_trace [of s w executable "argv @ [''--version'']" silentOpts]
    by (cases "execFancy w executable (argv @ [''--version'']) silentOpts s")
       (auto simp add: tryCandidate_def split: sum.splits option.splits)
qed

lemma tryCandidates_trace:
  "prefix (trace s) (trace (snd (tryCandidates w cs s)))"
proof (induction cs arbitrary: s)
  case Nil
  show ?case by simp
next
  case (Cons c cs)
  obtain r s1 where t: "tryCandidate w c s = (r, s1)"
    by (cases "tryCandidate w c s") auto
  have p: "prefix (trace s) (trace s1)"
    using tryCandidate_trace [of s w c] t by simp
  show ?case
  proof (cases r)
    case (Inl e)
    let ?s2 = "appendLine (''Python candidate '' @ join '','' c @ '' did not work: '' @ errorToString e) s1"
    have "prefix (trace s1) (trace ?s2)" by simp
    with p have "prefix (trace s) (trace ?s2)" by (rule prefix_order.trans)
    also have "prefix \<dots> (trace (snd (tryCandidates w cs ?s2)))" by (rule Cons.IH)
    finally show ?thesis using t Inl by simp
  next
    case (Inr st)
    show ?thesis
    proof (cases st)
      case Continue
      with t Inr p Cons.IH [of s1] show ?thesis by (auto intro: prefix_order.trans)
    next
      case (Return py)
      with t Inr p show ?thesis by simp
    qed
  qed
qed

text \<open>The loop never throws: whatever the body throws is caught.\<close>

lemma tryCandidates_Inr:
  "\<exists>r s'. tryCandidates w cs s = (Inr r, s')"
proof (induction cs arbitrary: s)
  case Nil
  show ?case by simp
next
  case (Cons c cs)
  obtain r s1 where t: "tryCandidate w c s = (r, s1)"
    by (cases "tryCandidate w c s") auto
  show ?case
  proof (cases r)
    case (Inl e)
    with t Cons.IH show ?thesis by simp
  next
    case (Inr st)
    with t Cons.IH show ?thesis by (cases st) simp_all
  qed
qed

lemma findPythonCommand_Inr:
  "\<exists>r s'. findPythonCommand w venvPath s = (Inr r, s')"
  unfolding findPythonCommand_def by (rule tryCandidates_Inr)

text \<open>A candidate whose \<open>try\<close> block throws: the \<open>catch\<close> block logs it, and the line stays.\<close>

lemma tryCandidates_first_logged:
  assumes "tryCandidate w c s = (Inl e, s1)"
  shows "Append (''Python candidate '' @ join '','' c @ '' did not work: '' @ errorToString e @ [LF])
           \<in> set (trace (snd (tryCandidates w (c # cs) s)))"
proof -
  let ?s2 = "appendLine (''Python candidate '' @ join '','' c @ '' did not work: '' @ errorToString e) s1"
  have "Append (''Python candidate '' @ join '','' c @ '' did not work: '' @ errorToString e @ [LF])
          \<in> set (trace ?s2)" by simp
  moreover have "set (trace ?s2) \<subseteq> set (trace (snd (tryCandidates w cs ?s2)))"
    using tryCandidates_trace [of ?s2 w cs] by (rule set_mono_prefix)
  ultimately show ?thesis using assms by auto
qed

text \<open>The run of the loop, attempt by attempt: the first attempt is the \<open>try\<close> block on the
  first candidate in the state in which the loop starts, every attempt is a run of the \<open>try\<close>
  block on its candidate, and the candidates reached are the first ones of the list, in order.\<close>

lemma attempts_first:
  "attempts w (c # cs) s \<noteq> [] \<and> hd (attempts w (c # cs) s) = (c, fst (tryCandidate w c s))"
  by (cases "tryCandidate w c s") (auto split: sum.splits step.splits)

lemma attempts_are_tries:
  "(c, r) \<in> set (attempts w cs s) \<Longrightarrow> \<exists>s0. fst (tryCandidate w c s0) = r"
proof (induction cs arbitrary: s)
  case Nil
  then show ?case by simp
next
  case (Cons c' cs)
  obtain r' s1 where t: "tryCandidate w c' s = (r', s1)"
    by (cases "tryCandidate w c' s") auto
  have here: "fst (tryCandidate w c' s) = r'" using t by simp
  show ?case
  proof (cases r')
    case (Inl e')
    with Cons.prems t have "(c, r) = (c', r') \<or> (c, r) \<in> set (attempts w cs
        (appendLine (''Python candidate '' @ join '','' c' @ '' did not work: '' @ errorToString e') s1))"
      by simp
    with here Cons.IH show ?thesis by blast
  next
    case (Inr st)
    show ?thesis
    proof (cases st)
      case Continue
      with Cons.prems t Inr have "(c, r) = (c', r') \<or> (c, r) \<in> set (attempts w cs s1)" by simp
      with here Cons.IH show ?thesis by blast
    next
      case (Return py)
      with Cons.prems t Inr have "(c, r) = (c', r')" by simp
      with here show ?thesis by blast
    qed
  qed
qed

lemma attempts_prefix: "prefix (map fst (attempts w cs s)) cs"
proof (induction cs arbitrary: s)
  case Nil
  show ?case by simp
next
  case (Cons c' cs)
  obtain r' s1 where t: "tryCandidate w c' s = (r', s1)"
    by (cases "tryCandidate w c' s") auto
  show ?case
  proof (cases r')
    case (Inl e')
    with t Cons.IH show ?thesis by simp
  next
    case (Inr st)
    with t Cons.IH show ?thesis by (cases st) simp_all
  qed
qed

lemma attempts_logged:
  "(c, Inl e) \<in> set (attempts w cs s) \<Longrightarrow>
   Append (''Python candidate '' @ join '','' c @ '' did not work: '' @ errorToString e @ [LF])
     \<in> set (trace (snd (tryCandidates w cs s)))"
proof (induction cs arbitrary: s)
  case Nil
  then show ?case by simp
next
  case (Cons c' cs)
  obtain r s1 where t: "tryCandidate w c' s = (r, s1)"
    by (cases "tryCandidate w c' s") auto
  show ?case
  proof (cases r)
    case (Inl e')
    let ?s2 = "appendLine (''Python candidate '' @ join '','' c' @ '' did not work: '' @ errorToString e') s1"
    have t': "tryCandidate w c' s = (Inl e', s1)" using t Inl by simp
    from Cons.prems t' have "(c = c' \<and> e = e') \<or> (c, Inl e) \<in> set (attempts w cs ?s2)"
      by simp
    then show ?thesis
    proof
      assume "c = c' \<and> e = e'"
      with tryCandidates_first_logged [OF t', of cs] show ?thesis by simp
    next
      assume "(c, Inl e) \<in> set (attempts w cs ?s2)"
      from Cons.IH [OF this] t' show ?thesis by simp
    qed
  next
    case (Inr st)
    show ?thesis
    proof (cases st)
      case Continue
      with t Inr Cons.prems have "(c, Inl e) \<in> set (attempts w cs s1)" by simp
      from Cons.IH [OF this] t Inr Continue show ?thesis by simp
    next
      case (Return py)
      with t Inr Cons.prems show ?thesis by simp
    qed
  qed
qed

lemma attempts_exhausted:
  "\<forall>c py. (c, Inr (Return py)) \<notin> set (attempts w cs s) \<Longrightarrow>
   fst (tryCandidates w cs s) = Inr None \<and> map fst (attempts w cs s) = cs"
proof (induction cs arbitrary: s)
  case Nil
  show ?case by simp
next
  case (Cons c' cs)
  obtain r s1 where t: "tryCandidate w c' s = (r, s1)"
    by (cases "tryCandidate w c' s") auto
  show ?case
  proof (cases r)
    case (Inl e')
    let ?s2 = "appendLine (''Python candidate '' @ join '','' c' @ '' did not work: '' @ errorToString e') s1"
    from Cons.prems t Inl have "\<forall>c py. (c, Inr (Return py)) \<notin> set (attempts w cs ?s2)" by simp
    from Cons.IH [OF this] t Inl show ?thesis by simp
  next
    case (Inr st)
    show ?thesis
    proof (cases st)
      case Continue
      with Cons.prems t Inr have "\<forall>c py. (c, Inr (Return py)) \<notin> set (attempts w cs s1)" by simp
      from Cons.IH [OF this] t Inr Continue show ?thesis by simp
    next
      case (Return py)
      with Cons.prems t Inr show ?thesis by simp
    qed
  qed
qed

lemma attempts_returned:
  "(c, Inr (Return py)) \<in> set (attempts w cs s) \<Longrightarrow> fst (tryCandidates w cs s) = Inr (Some py)"
proof (induction cs arbitrary: s)
  case Nil
  then show ?case by simp
next
  case (Cons c' cs)
  obtain r s1 where t: "tryCandidate w c' s = (r, s1)"
    by (cases "tryCandidate w c' s") auto
  show ?case
  proof (cases r)
    case (Inl e')
    let ?s2 = "appendLine (''Python candidate '' @ join '','' c' @ '' did not work: '' @ errorToString e') s1"
    from Cons.prems t Inl have "(c, Inr (Return py)) \<in> set (attempts w cs ?s2)" by simp
    from Cons.IH [OF this] t Inl show ?thesis by simp
  next
    case (Inr st)
    show ?thesis
    proof (cases st)
      case Continue
      with Cons.prems t Inr have "(c, Inr (Return py)) \<in> set (attempts w cs s1)" by simp
      from Cons.IH [OF this] t Inr Continue show ?thesis by simp
    next
      case (Return py')
      with Cons.prems t Inr show ?thesis by simp
    qed
  qed
qed

text \<open>
  Claim C9.  \<open>findPythonCommand\<close> always returns and never throws, for every search root,
  every state and every behaviour of the processes it starts and of everything else.  In the
  run of its loop (\<open>attempts\<close>: the candidates reached, which are the first ones of the list,
  each with what its \<open>try\<close> block did), every candidate whose \<open>try\<close> block threw has its
  line in the log, naming the candidate and the error caught.  When no candidate made the loop return, whether they threw or were passed
  over for printing no version, every candidate was tried and the result is \<open>null\<close>; the
  result is an interpreter only when some candidate printed a version, and then it is the
  one of that candidate.
\<close>

theorem findPythonCommand_not_found:
  "(\<exists>r s'. findPythonCommand w venvPath s = (Inr r, s'))
   \<and> prefix (map fst (attempts w (candidatesFor w venvPath) s)) (candidatesFor w venvPath)
   \<and> (\<forall>c e. (c, Inl e) \<in> set (attempts w (candidatesFor w venvPath) s) \<longrightarrow>
         Append (''Python candidate '' @ join '','' c @ '' did not work: '' @ errorToString e @ [LF])
           \<in> set (trace (snd (findPythonCommand w venvPath s))))
   \<and> ((\<forall>c py. (c, Inr (Return py)) \<notin> set (attempts w (candidatesFor w venvPath) s)) \<longrightarrow>
         fst (findPythonCommand w venvPath s) = Inr None
         \<and> map fst (attempts w (candidatesFor w venvPath) s) = candidatesFor w venvPath)
   \<and> (\<forall>c py. (c, Inr (Return py)) \<in> set (attempts w (candidatesFor w venvPath) s) \<longrightarrow>
         fst (findPythonCommand w venvPath s) = Inr (Some py))"
  using findPythonCommand_Inr [of w venvPath s]
    attempts_prefix [of w "candidatesFor w venvPath" s]
    attempts_logged [of _ _ w "candidatesFor w venvPath" s]
    attempts_exhausted [of w "candidatesFor w venvPath" s]
    attempts_returned [of _ _ w "candidatesFor w venvPath" s]
  unfolding findPythonCommand_def by blast

subsection \<open>The locator on concrete machines\<close>

lemma fake_candidates:
  "candidatesFor (testWorld oc venv a e) (Some ''/fake'')
     = [[''/fake/bin/python.exe''], [''/fake/bin/python3''], [''/fake/bin/python''],
        [''/fake/bin/py'', ''-3''], [''/fake/bin/py''],
        [''/fake/Scripts/python.exe''], [''/fake/Scripts/python3''], [''/fake/Scripts/python''],
        [''/fake/Scripts/py'', ''-3''], [''/fake/Scripts/py'']]"
  by (simp add: candidatesFor_def baseCandidates_def)

lemma system_candidates: "candidatesFor w None = [''python.exe''] # tl baseCandidates"
  by (simp add: candidatesFor_def baseCandidates_def)

text \<open>On a machine where no executable is found, every candidate throws the spawn error.\<close>

lemma tryCandidate_notFound:
  assumes "currentProcess s = None"
  shows "\<exists>s1. tryCandidate (testWorld notFound venv a e) (exe # argv) s = (Inl (Error ''spawn ENOENT''), s1)
           \<and> currentProcess s1 = None"
proof -
  from execFancy_idle [OF assms, of "testWorld notFound venv a e" exe "argv @ [''--version'']" silentOpts]
  show ?thesis
    by (auto simp add: tryCandidate_def notFound_def)
qed

lemma attempts_notFound:
  "currentProcess s = None \<Longrightarrow> [] \<notin> set cs \<Longrightarrow>
   attempts (testWorld notFound venv a e) cs s = map (\<lambda>c. (c, Inl (Error ''spawn ENOENT''))) cs"
proof (induction cs arbitrary: s)
  case Nil
  show ?case by simp
next
  case (Cons c cs)
  from Cons.prems obtain exe argv where c: "c = exe # argv"
    by (cases c) auto
  from tryCandidate_notFound [OF Cons.prems(1), of venv a e exe argv]
  obtain s1 where t: "tryCandidate (testWorld notFound venv a e) c s = (Inl (Error ''spawn ENOENT''), s1)"
    and i: "currentProcess s1 = None"
    using c by blast
  let ?s2 = "appendLine (''Python candidate '' @ join '','' c @ '' did not work: ''
      @ errorToString (Error ''spawn ENOENT'')) s1"
  have "currentProcess ?s2 = None" using i by simp
  moreover have "[] \<notin> set cs" using Cons.prems by simp
  ultimately have "attempts (testWorld notFound venv a e) cs ?s2
      = map (\<lambda>c. (c, Inl (Error ''spawn ENOENT''))) cs"
    by (rule Cons.IH)
  with t show ?case by simp
qed

text \<open>On a machine where every process exits with code 0 and prints nothing, every
  candidate is passed over.\<close>

lemma tryCandidate_mute:
  assumes "currentProcess s = None"
  shows "\<exists>s1. tryCandidate (testWorld (exitsWith 0) venv a e) (exe # argv) s = (Inr Continue, s1)
           \<and> currentProcess s1 = None"
proof -
  from execFancy_idle [OF assms, of "testWorld (exitsWith 0) venv a e" exe "argv @ [''--version'']" silentOpts]
  show ?thesis
    by (auto simp add: tryCandidate_def exitsWith_def stdoutOf_def stderrOf_def)
qed

lemma attempts_mute:
  "currentProcess s = None \<Longrightarrow> [] \<notin> set cs \<Longrightarrow>
   attempts (testWorld (exitsWith 0) venv a e) cs s = map (\<lambda>c. (c, Inr Continue)) cs"
proof (induction cs arbitrary: s)
  case Nil
  show ?case by simp
next
  case (Cons c cs)
  from Cons.prems obtain exe argv where c: "c = exe # argv"
    by (cases c) auto
  from tryCandidate_mute [OF Cons.prems(1), of venv a e exe argv]
  obtain s1 where t: "tryCandidate (testWorld (exitsWith 0) venv a e) c s = (Inr Continue, s1)"
    and i: "currentProcess s1 = None"
    using c by blast
  have "[] \<notin> set cs" using Cons.prems by simp
  with i have "attempts (testWorld (exitsWith 0) venv a e) cs s1 = map (\<lambda>c. (c, Inr Continue)) cs"
    by (rule Cons.IH)
  with t show ?case by simp
qed

section \<open>The environment prober: results\<close>

lemma probeProjectFile_fields:
  "hasSystemPython (fst (probeProjectFile w rootPath r s)) = hasSystemPython r"
  "isSystemPythonNewEnough (fst (probeProjectFile w rootPath r s)) = isSystemPythonNewEnough r"
  "hasSystemPythonVenvModule (fst (probeProjectFile w rootPath r s)) = hasSystemPythonVenvModule r"
  "systemPythonCommand (fst (probeProjectFile w rootPath r s)) = systemPythonCommand r"
  "hasVenvFolder (fst (probeProjectFile w rootPath r s)) = hasVenvFolder r"
  "isVenvPythonNewEnough (fst (probeProjectFile w rootPath r s)) = isVenvPythonNewEnough r"
  "isVenvReady (fst (probeProjectFile w rootPath r s)) = isVenvReady r"
  "venvPythonCommand (fst (probeProjectFile w rootPath r s)) = venvPythonCommand r"
  by (simp_all add: probeProjectFile_def Let_def split: sum.splits)

text \<open>What the probe of the system interpreter establishes, starting from a report whose
  system fields are still unset; the fields of the virtual environment are not touched.\<close>

lemma probeSystemPython_result:
  assumes "\<not> hasSystemPython r" "\<not> isSystemPythonNewEnough r" "\<not> hasSystemPythonVenvModule r"
    "systemPythonCommand r = None"
  shows "\<exists>r' s'. probeSystemPython w r s = (Inr r', s')
     \<and> (hasSystemPython r' \<longleftrightarrow> systemPythonCommand r' \<noteq> None)
     \<and> (isSystemPythonNewEnough r' \<longleftrightarrow> (\<exists>py. systemPythonCommand r' = Some py \<and> newEnough (version py)))
     \<and> (hasSystemPythonVenvModule r' \<longrightarrow> isSystemPythonNewEnough r')
     \<and> hasVenvFolder r' = hasVenvFolder r
     \<and> isVenvPythonNewEnough r' = isVenvPythonNewEnough r
     \<and> isVenvReady r' = isVenvReady r
     \<and> venvPythonCommand r' = venvPythonCommand r"
proof -
  obtain x s1 where f: "findPythonCommand w None (appendLine ''Checking system Python...'' s) = (Inr x, s1)"
    using findPythonCommand_Inr by blast
  show ?thesis
  proof (cases x)
    case None
    with f assms show ?thesis by (simp add: probeSystemPython_def)
  next
    case (Some py)
    show ?thesis
    proof (cases "newEnough (version py)")
      case False
      with f Some assms show ?thesis by (simp add: probeSystemPython_def Let_def)
    next
      case True
      obtain y s3 where e: "execFancy w (cmd py) (args py @ [''-c'', ''import venv'']) silentOpts
          (appendLine ''System Python is new enough''
            (appendLine (''System Python found with version '' @ versionStr py) s1)) = (y, s3)"
        by (cases "execFancy w (cmd py) (args py @ [''-c'', ''import venv'']) silentOpts
          (appendLine ''System Python is new enough''
            (appendLine (''System Python found with version '' @ versionStr py) s1))") auto
      with f Some True assms show ?thesis
        by (cases y) (simp_all add: probeSystemPython_def Let_def)
    qed
  qed
qed

lemma probeVenv_result:
  assumes "\<not> hasVenvFolder r" "\<not> isVenvPythonNewEnough r" "\<not> isVenvReady r" "venvPythonCommand r = None"
  shows "\<exists>r' s'. probeVenv w rootPath r s = (Inr r', s')
     \<and> (isVenvPythonNewEnough r' \<longleftrightarrow> (\<exists>py. venvPythonCommand r' = Some py \<and> newEnough (version py)))
     \<and> (isVenvPythonNewEnough r' \<longrightarrow> hasVenvFolder r')
     \<and> (isVenvReady r' \<longrightarrow> isVenvPythonNewEnough r')
     \<and> hasSystemPython r' = hasSystemPython r
     \<and> isSystemPythonNewEnough r' = isSystemPythonNewEnough r
     \<and> hasSystemPythonVenvModule r' = hasSystemPythonVenvModule r
     \<and> systemPythonCommand r' = systemPythonCommand r"
proof (cases "existsSync w (getVenvPath w rootPath)")
  case False
  with assms show ?thesis by (simp add: probeVenv_def)
next
  case True
  obtain x s1 where f: "findPythonCommand w (Some (getVenvPath w rootPath))
      (appendLine (''venv found at '' @ getVenvPath w rootPath) s) = (Inr x, s1)"
    using findPythonCommand_Inr by blast
  show ?thesis
  proof (cases x)
    case None
    with f True assms show ?thesis by (simp add: probeVenv_def Let_def)
  next
    case (Some py)
    show ?thesis
    proof (cases "newEnough (version py)")
      case False
      with f Some True assms show ?thesis by (simp add: probeVenv_def Let_def)
    next
      case ne: True
      obtain y s3 where e: "execFancy w (cmd py) (args py @ [''-c'', ''import robotpy''])
          (silentOpts\<lparr>cwd := Some rootPath\<rparr>)
          (appendLine ''venv Python is new enough''
            (appendLine (''venv Python found with version '' @ versionStr py) s1)) = (y, s3)"
        by (cases "execFancy w (cmd py) (args py @ [''-c'', ''import robotpy''])
          (silentOpts\<lparr>cwd := Some rootPath\<rparr>)
          (appendLine ''venv Python is new enough''
            (appendLine (''venv Python found with version '' @ versionStr py) s1))") auto
      with f Some True ne assms show ?thesis
        by (cases y) (simp_all add: probeVenv_def Let_def)
    qed
  qed
qed

lemma probeExecutionPolicy_fields:
  "hasSystemPython (fst (fst (probeExecutionPolicy w r s))) = hasSystemPython r"
  "isSystemPythonNewEnough (fst (fst (probeExecutionPolicy w r s))) = isSystemPythonNewEnough r"
  "hasSystemPythonVenvModule (fst (fst (probeExecutionPolicy w r s))) = hasSystemPythonVenvModule r"
  "systemPythonCommand (fst (fst (probeExecutionPolicy w r s))) = systemPythonCommand r"
  "hasVenvFolder (fst (fst (probeExecutionPolicy w r s))) = hasVenvFolder r"
  "isVenvPythonNewEnough (fst (fst (probeExecutionPolicy w r s))) = isVenvPythonNewEnough r"
  "isVenvReady (fst (fst (probeExecutionPolicy w r s))) = isVenvReady r"
  "venvPythonCommand (fst (fst (probeExecutionPolicy w r s))) = venvPythonCommand r"
  by (simp_all add: probeExecutionPolicy_def Let_def split: sum.splits prod.splits)

text \<open>The report of \<open>checkEnvironment\<close>: it is always produced, and its fields are related
  as follows.\<close>

lemma checkEnvironment_result:
  "\<exists>r d s'. checkEnvironment w rootPath s = (Inr (r, d), s')
     \<and> (hasSystemPython r \<longleftrightarrow> systemPythonCommand r \<noteq> None)
     \<and> (isSystemPythonNewEnough r \<longleftrightarrow> (\<exists>py. systemPythonCommand r = Some py \<and> newEnough (version py)))
     \<and> (hasSystemPythonVenvModule r \<longrightarrow> isSystemPythonNewEnough r)
     \<and> (isVenvPythonNewEnough r \<longleftrightarrow> (\<exists>py. venvPythonCommand r = Some py \<and> newEnough (version py)))
     \<and> (isVenvPythonNewEnough r \<longrightarrow> hasVenvFolder r)
     \<and> (isVenvReady r \<longrightarrow> isVenvPythonNewEnough r)"
proof -
  obtain r1 s1 where p1: "probeProjectFile w rootPath (initialChecks w) s = (r1, s1)"
    by (cases "probeProjectFile w rootPath (initialChecks w) s") auto
  have r1: "\<not> hasSystemPython r1" "\<not> isSystemPythonNewEnough r1" "\<not> hasSystemPythonVenvModule r1"
    "systemPythonCommand r1 = None"
    "\<not> hasVenvFolder r1" "\<not> isVenvPythonNewEnough r1" "\<not> isVenvReady r1" "venvPythonCommand r1 = None"
    using probeProjectFile_fields [of w rootPath "initialChecks w" s] p1
    by (simp_all add: initialChecks_def)
  from probeSystemPython_result [OF r1(1-4), of w s1]
  obtain r2 s2 where p2: "probeSystemPython w r1 s1 = (Inr r2, s2)"
    and sys2a: "hasSystemPython r2 \<longleftrightarrow> systemPythonCommand r2 \<noteq> None"
    and sys2b: "isSystemPythonNewEnough r2 \<longleftrightarrow> (\<exists>py. systemPythonCommand r2 = Some py \<and> newEnough (version py))"
    and sys2c: "hasSystemPythonVenvModule r2 \<longrightarrow> isSystemPythonNewEnough r2"
    and keep2: "hasVenvFolder r2 = hasVenvFolder r1" "isVenvPythonNewEnough r2 = isVenvPythonNewEnough r1"
      "isVenvReady r2 = isVenvReady r1" "venvPythonCommand r2 = venvPythonCommand r1"
    by blast
  have venv2: "\<not> hasVenvFolder r2" "\<not> isVenvPythonNewEnough r2" "\<not> isVenvReady r2" "venvPythonCommand r2 = None"
    by (simp_all add: keep2 r1)
  from probeVenv_result [OF venv2, of w rootPath s2]
  obtain r3 s3 where p3: "probeVenv w rootPath r2 s2 = (Inr r3, s3)"
    and venv3a: "isVenvPythonNewEnough r3 \<longleftrightarrow> (\<exists>py. venvPythonCommand r3 = Some py \<and> newEnough (version py))"
    and venv3b: "isVenvPythonNewEnough r3 \<longrightarrow> hasVenvFolder r3"
    and venv3c: "isVenvReady r3 \<longrightarrow> isVenvPythonNewEnough r3"
    and keep3: "hasSystemPython r3 = hasSystemPython r2"
      "isSystemPythonNewEnough r3 = isSystemPythonNewEnough r2"
      "hasSystemPythonVenvModule r3 = hasSystemPythonVenvModule r2"
      "systemPythonCommand r3 = systemPythonCommand r2"
    by blast
  obtain r4 d s4 where p4: "probeExecutionPolicy w r3 s3 = ((r4, d), s4)"
    by (cases "probeExecutionPolicy w r3 s3") auto
  have keep4: "hasSystemPython r4 = hasSystemPython r3"
    "isSystemPythonNewEnough r4 = isSystemPythonNewEnough r3"
    "hasSystemPythonVenvModule r4 = hasSystemPythonVenvModule r3"
    "systemPythonCommand r4 = systemPythonCommand r3"
    "hasVenvFolder r4 = hasVenvFolder r3"
    "isVenvPythonNewEnough r4 = isVenvPythonNewEnough r3"
    "isVenvReady r4 = isVenvReady r3"
    "venvPythonCommand r4 = venvPythonCommand r3"
    using probeExecutionPolicy_fields [of w r3 s3] p4 by simp_all
  have a: "hasSystemPython r4 \<longleftrightarrow> systemPythonCommand r4 \<noteq> None"
    using sys2a by (simp only: keep4 keep3)
  have b: "isSystemPythonNewEnough r4 \<longleftrightarrow> (\<exists>py. systemPythonCommand r4 = Some py \<and> newEnough (version py))"
    using sys2b by (simp only: keep4 keep3)
  have c: "hasSystemPythonVenvModule r4 \<longrightarrow> isSystemPythonNewEnough r4"
    using sys2c by (simp only: keep4 keep3)
  have d: "isVenvPythonNewEnough r4 \<longleftrightarrow> (\<exists>py. venvPythonCommand r4 = Some py \<and> newEnough (version py))"
    using venv3a by (simp only: keep4)
  have e: "isVenvPythonNewEnough r4 \<longrightarrow> hasVenvFolder r4"
    using venv3b by (simp only: keep4)
  have f: "isVenvReady r4 \<longrightarrow> isVenvPythonNewEnough r4"
    using venv3c by (simp only: keep4)
  have g: "isSystemPythonNewEnough r4 \<longrightarrow> hasSystemPython r4"
    using a b by blast
  have inv: "assertInvariants r4 = None"
    using c e f g by (auto simp add: assertInvariants_def)
  have "checkEnvironment w rootPath s = (Inr (r4, d), s4)"
    by (simp add: checkEnvironment_def p1 p2 p3 p4 inv)
  with a b c d e f show ?thesis by blast
qed

text \<open>
  Claim C1.  For every workspace root, every state and every behaviour of the file system and
  of the probed processes, \<open>checkEnvironment\<close> returns a report (none of its assertions
  fails), and in that report \<open>isVenvPythonNewEnough\<close> implies \<open>hasVenvFolder\<close>,
  \<open>isVenvReady\<close> implies \<open>hasVenvFolder\<close> and \<open>isVenvPythonNewEnough\<close>,
  \<open>hasSystemPythonVenvModule\<close> implies \<open>hasSystemPython\<close> and \<open>isSystemPythonNewEnough\<close>, and
  \<open>isSystemPythonNewEnough\<close> implies \<open>hasSystemPython\<close>.
\<close>

theorem report_invariants:
  "\<exists>r d s'. checkEnvironment w rootPath s = (Inr (r, d), s')
     \<and> (isVenvPythonNewEnough r \<longrightarrow> hasVenvFolder r)
     \<and> (isVenvReady r \<longrightarrow> hasVenvFolder r \<and> isVenvPythonNewEnough r)
     \<and> (hasSystemPythonVenvModule r \<longrightarrow> hasSystemPython r \<and> isSystemPythonNewEnough r)
     \<and> (isSystemPythonNewEnough r \<longrightarrow> hasSystemPython r)"
proof -
  from checkEnvironment_result [of w rootPath s]
  obtain r d s' where c: "checkEnvironment w rootPath s = (Inr (r, d), s')"
    and sys: "hasSystemPython r \<longleftrightarrow> systemPythonCommand r \<noteq> None"
      "isSystemPythonNewEnough r \<longleftrightarrow> (\<exists>py. systemPythonCommand r = Some py \<and> newEnough (version py))"
      "hasSystemPythonVenvModule r \<longrightarrow> isSystemPythonNewEnough r"
    and venv: "isVenvPythonNewEnough r \<longrightarrow> hasVenvFolder r" "isVenvReady r \<longrightarrow> isVenvPythonNewEnough r"
    by blast
  from sys have "isSystemPythonNewEnough r \<longrightarrow> hasSystemPython r" by blast
  with c sys venv show ?thesis by blast
qed

text \<open>
  Claim C6, as amended.  The version test of \<open>checkEnvironment\<close> compares the two components
  separately with the minimum (3, 12): the system interpreter, and likewise the interpreter of
  the virtual environment, is reported new enough exactly when one was found whose major
  version is at least 3 and whose minor version is at least 12.  So an interpreter of major
  version 4 passes exactly when its minor version is at least 12: 4.12 passes, 4.0 does not.
\<close>

theorem version_gate_componentwise:
  "\<exists>r d s'. checkEnvironment w rootPath s = (Inr (r, d), s')
     \<and> (isSystemPythonNewEnough r \<longleftrightarrow>
          (\<exists>py. systemPythonCommand r = Some py \<and> 3 \<le> fst (version py) \<and> 12 \<le> snd (version py)))
     \<and> (isVenvPythonNewEnough r \<longleftrightarrow>
          (\<exists>py. venvPythonCommand r = Some py \<and> 3 \<le> fst (version py) \<and> 12 \<le> snd (version py)))"
proof -
  have n: "newEnough v \<longleftrightarrow> 3 \<le> fst v \<and> 12 \<le> snd v" for v
    by (simp add: newEnough_def PYTHON_MIN_VERSION_def)
  from checkEnvironment_result [of w rootPath s]
  obtain r d s' where c: "checkEnvironment w rootPath s = (Inr (r, d), s')"
    and sys: "isSystemPythonNewEnough r \<longleftrightarrow> (\<exists>py. systemPythonCommand r = Some py \<and> newEnough (version py))"
    and venv: "isVenvPythonNewEnough r \<longleftrightarrow> (\<exists>py. venvPythonCommand r = Some py \<and> newEnough (version py))"
    by blast
  from c sys venv show ?thesis unfolding n by blast
qed


section \<open>The prober on concrete machines\<close>

lemmas match_eval = matchVersionAt_def toLower_def char_of_def bit_0 isWhiteSpace_def isDigit_def
  Let_def LF_def

lemma matchVersion_3_12: "matchVersion (''Python '' @ ''3.12.1'' @ [LF]) = Some (''3'', ''12'')"
  by (simp add: match_eval)

lemma matchVersion_4_0: "matchVersion (''Python '' @ ''4.0.0'' @ [LF]) = Some (''4'', ''0'')"
  by (simp add: match_eval)

lemma matchVersion_4_12: "matchVersion (''Python '' @ ''4.12.0'' @ [LF]) = Some (''4'', ''12'')"
  by (simp add: match_eval)

lemma decimal_eval:
  "decimal ''3'' = 3" "decimal ''4'' = 4" "decimal ''0'' = 0" "decimal ''12'' = 12"
  by (simp_all add: decimal_def digitVal_def)

lemma parse_eval:
  "parseInt w ''3'' = 3" "parseInt w ''4'' = 4" "parseInt w ''0'' = 0" "parseInt w ''12'' = 12"
  by (simp_all add: parseInt_def decimal_eval numeral_eq_enat zero_enat_def)

lemma show_eval:
  "numberText w ''3'' = ''3''" "numberText w ''4'' = ''4''" "numberText w ''0'' = ''0''"
  "numberText w ''12'' = ''12''"
  by (simp_all add: numberText_def decimal_eval showNat.simps digitChar_def char_of_def bit_0)

text \<open>On a machine where every process prints \<open>Python v\<close> and exits with code 0.\<close>

lemma execFancy_prints:
  assumes "currentProcess s = None"
  shows "\<exists>s1. execFancy (testWorld (pythonPrints v) venv a e) exe argv opts s
           = (Inr (''Python '' @ v @ [LF], []), s1) \<and> currentProcess s1 = None"
  using execFancy_idle [OF assms, of "testWorld (pythonPrints v) venv a e" exe argv opts]
  by (simp add: pythonPrints_def stdoutOf_def stderrOf_def)

lemma tryCandidate_prints:
  assumes "currentProcess s = None" and "matchVersion (''Python '' @ v @ [LF]) = Some (ma, mi)"
  shows "\<exists>s1. tryCandidate (testWorld (pythonPrints v) venv a e) (exe # argv) s
           = (Inr (Return \<lparr>cmd = exe, args = argv, version = (parseInt (testWorld (pythonPrints v) venv a e) ma, parseInt (testWorld (pythonPrints v) venv a e) mi),
                versionStr = numberText (testWorld (pythonPrints v) venv a e) ma @ ''.'' @ numberText (testWorld (pythonPrints v) venv a e) mi\<rparr>), s1)
         \<and> currentProcess s1 = None"
proof -
  from execFancy_prints [OF assms(1), of v venv a e exe "argv @ [''--version'']" silentOpts]
  obtain s1 where "execFancy (testWorld (pythonPrints v) venv a e) exe (argv @ [''--version'']) silentOpts s
           = (Inr (''Python '' @ v @ [LF], []), s1)" and "currentProcess s1 = None"
    by blast
  then show ?thesis
    using assms(2) by (simp add: tryCandidate_def)
qed

lemma findPythonCommand_prints:
  assumes "currentProcess s = None" and "matchVersion (''Python '' @ v @ [LF]) = Some (ma, mi)"
    and "candidatesFor (testWorld (pythonPrints v) venv a e) vp = (exe # argv) # rest"
  shows "\<exists>s1. findPythonCommand (testWorld (pythonPrints v) venv a e) vp s
           = (Inr (Some \<lparr>cmd = exe, args = argv, version = (parseInt (testWorld (pythonPrints v) venv a e) ma, parseInt (testWorld (pythonPrints v) venv a e) mi),
                versionStr = numberText (testWorld (pythonPrints v) venv a e) ma @ ''.'' @ numberText (testWorld (pythonPrints v) venv a e) mi\<rparr>), s1)
         \<and> currentProcess s1 = None"
  using tryCandidate_prints [OF assms(1,2), of venv a e exe argv]
  by (auto simp add: findPythonCommand_def assms(3))

text \<open>The locator on three machines: one where no executable is found under the search
  root, one where every candidate runs and prints nothing, one with Python 3.12.\<close>

lemma join_comma: "join '','' [''/fake/Scripts/py'', ''-3''] = ''/fake/Scripts/py,-3''"
  "join '','' [''/fake/bin/python.exe''] = ''/fake/bin/python.exe''"
  by simp_all

theorem findPythonCommand_not_found_witness:
  "fst (findPythonCommand (testWorld notFound False None None) (Some ''/fake'') initialState) = Inr None
   \<and> map fst (attempts (testWorld notFound False None None)
        (candidatesFor (testWorld notFound False None None) (Some ''/fake'')) initialState)
       = candidatesFor (testWorld notFound False None None) (Some ''/fake'')
   \<and> ([''/fake/bin/python.exe''], Inl (Error ''spawn ENOENT''))
        \<in> set (attempts (testWorld notFound False None None)
              (candidatesFor (testWorld notFound False None None) (Some ''/fake'')) initialState)
   \<and> Append (''Python candidate /fake/bin/python.exe did not work: Error: spawn ENOENT'' @ [LF])
        \<in> set (trace (snd (findPythonCommand (testWorld notFound False None None) (Some ''/fake'') initialState)))
   \<and> ([''/fake/Scripts/py'', ''-3''], Inl (Error ''spawn ENOENT''))
        \<in> set (attempts (testWorld notFound False None None)
              (candidatesFor (testWorld notFound False None None) (Some ''/fake'')) initialState)
   \<and> Append (''Python candidate /fake/Scripts/py,-3 did not work: Error: spawn ENOENT'' @ [LF])
        \<in> set (trace (snd (findPythonCommand (testWorld notFound False None None) (Some ''/fake'') initialState)))
   \<and> map snd (attempts (testWorld (exitsWith 0) False None None)
        (candidatesFor (testWorld (exitsWith 0) False None None) None) initialState)
       = [Inr Continue, Inr Continue, Inr Continue, Inr Continue, Inr Continue]
   \<and> fst (findPythonCommand (testWorld (exitsWith 0) False None None) None initialState) = Inr None
   \<and> ([''python.exe''], Inr (Return \<lparr>cmd = ''python.exe'', args = [], version = (3, 12), versionStr = ''3.12''\<rparr>))
        \<in> set (attempts (testWorld (pythonPrints ''3.12.1'') False None None)
              (candidatesFor (testWorld (pythonPrints ''3.12.1'') False None None) None) initialState)
   \<and> fst (findPythonCommand (testWorld (pythonPrints ''3.12.1'') False None None) None initialState)
       = Inr (Some \<lparr>cmd = ''python.exe'', args = [], version = (3, 12), versionStr = ''3.12''\<rparr>)"
proof -
  let ?w1 = "testWorld notFound False None None"
  let ?w2 = "testWorld (exitsWith 0) False None None"
  let ?w3 = "testWorld (pythonPrints ''3.12.1'') False None None"
  let ?py = "\<lparr>cmd = ''python.exe'', args = [], version = (3, 12), versionStr = ''3.12''\<rparr>"
  have a1: "attempts ?w1 (candidatesFor ?w1 (Some ''/fake'')) initialState
      = map (\<lambda>c. (c, Inl (Error ''spawn ENOENT''))) (candidatesFor ?w1 (Some ''/fake''))"
    by (rule attempts_notFound) (simp_all add: initial_facts fake_candidates)
  have none1: "\<forall>c py. (c, Inr (Return py)) \<notin> set (attempts ?w1 (candidatesFor ?w1 (Some ''/fake'')) initialState)"
    by (auto simp add: a1)
  have m1: "([''/fake/bin/python.exe''], Inl (Error ''spawn ENOENT''))
      \<in> set (attempts ?w1 (candidatesFor ?w1 (Some ''/fake'')) initialState)"
    unfolding a1 by (simp add: fake_candidates)
  have m2: "([''/fake/Scripts/py'', ''-3''], Inl (Error ''spawn ENOENT''))
      \<in> set (attempts ?w1 (candidatesFor ?w1 (Some ''/fake'')) initialState)"
    unfolding a1 by (simp add: fake_candidates)
  note t1 = findPythonCommand_not_found [of ?w1 "Some ''/fake''" initialState]
  have r1: "fst (findPythonCommand ?w1 (Some ''/fake'') initialState) = Inr None"
    and all1: "map fst (attempts ?w1 (candidatesFor ?w1 (Some ''/fake'')) initialState)
        = candidatesFor ?w1 (Some ''/fake'')"
    using t1 none1 by blast+
  have l1: "Append (''Python candidate /fake/bin/python.exe did not work: Error: spawn ENOENT'' @ [LF])
      \<in> set (trace (snd (findPythonCommand ?w1 (Some ''/fake'') initialState)))"
  proof -
    from t1 m1 have "Append (''Python candidate '' @ join '','' [''/fake/bin/python.exe''] @ '' did not work: ''
          @ errorToString (Error ''spawn ENOENT'') @ [LF])
        \<in> set (trace (snd (findPythonCommand ?w1 (Some ''/fake'') initialState)))"
      by blast
    then show ?thesis by (simp add: join_comma)
  qed
  have l2: "Append (''Python candidate /fake/Scripts/py,-3 did not work: Error: spawn ENOENT'' @ [LF])
      \<in> set (trace (snd (findPythonCommand ?w1 (Some ''/fake'') initialState)))"
  proof -
    from t1 m2 have "Append (''Python candidate '' @ join '','' [''/fake/Scripts/py'', ''-3''] @ '' did not work: ''
          @ errorToString (Error ''spawn ENOENT'') @ [LF])
        \<in> set (trace (snd (findPythonCommand ?w1 (Some ''/fake'') initialState)))"
      by blast
    then show ?thesis by (simp add: join_comma)
  qed
  have a2: "attempts ?w2 (candidatesFor ?w2 None) initialState
      = map (\<lambda>c. (c, Inr Continue)) (candidatesFor ?w2 None)"
    by (rule attempts_mute) (simp_all add: initial_facts candidatesFor_def baseCandidates_def)
  have none2: "\<forall>c py. (c, Inr (Return py)) \<notin> set (attempts ?w2 (candidatesFor ?w2 None) initialState)"
    by (auto simp add: a2)
  have s2: "map snd (attempts ?w2 (candidatesFor ?w2 None) initialState)
      = [Inr Continue, Inr Continue, Inr Continue, Inr Continue, Inr Continue]"
    unfolding a2 by (simp add: candidatesFor_def baseCandidates_def)
  have r2: "fst (findPythonCommand ?w2 None initialState) = Inr None"
    using findPythonCommand_not_found [of ?w2 None initialState] none2 by blast
  obtain s1 where "tryCandidate ?w3 [''python.exe''] initialState
      = (Inr (Return \<lparr>cmd = ''python.exe'', args = [],
            version = (parseInt ?w3 ''3'', parseInt ?w3 ''12''),
            versionStr = numberText ?w3 ''3'' @ ''.'' @ numberText ?w3 ''12''\<rparr>), s1)"
    using tryCandidate_prints [OF initial_facts(1) matchVersion_3_12, of False None None "''python.exe''" "[]"]
    by blast
  then have t3: "tryCandidate ?w3 [''python.exe''] initialState = (Inr (Return ?py), s1)"
    by (simp add: parse_eval show_eval)
  have m3: "([''python.exe''], Inr (Return ?py)) \<in> set (attempts ?w3 (candidatesFor ?w3 None) initialState)"
    by (simp add: system_candidates t3)
  have r3: "fst (findPythonCommand ?w3 None initialState) = Inr (Some ?py)"
    using findPythonCommand_not_found [of ?w3 None initialState] m3 by blast
  from r1 all1 m1 l1 m2 l2 s2 r2 m3 r3 show ?thesis
    by (intro conjI)
qed

lemma venv_path: "getVenvPath (testWorld oc venv a e) ''/proj'' = ''/proj/.venv''"
  by (simp add: getVenvPath_def VENV_DIR_def)

lemma venv_candidates:
  "candidatesFor (testWorld oc venv a e) (Some ''/proj/.venv'')
     = [''/proj/.venv/bin/python.exe'']
       # tl (candidatesFor (testWorld oc venv a e) (Some ''/proj/.venv''))"
  by (simp add: candidatesFor_def baseCandidates_def)

lemma probeSystemPython_prints:
  assumes "currentProcess s = None" and "matchVersion (''Python '' @ v @ [LF]) = Some (ma, mi)"
  shows "\<exists>s1. probeSystemPython (testWorld (pythonPrints v) venv a e) r s
           = (Inr (if newEnough (parseInt (testWorld (pythonPrints v) venv a e) ma, parseInt (testWorld (pythonPrints v) venv a e) mi)
                   then r\<lparr>hasSystemPython := True,
                          systemPythonCommand := Some \<lparr>cmd = ''python.exe'', args = [],
                            version = (parseInt (testWorld (pythonPrints v) venv a e) ma, parseInt (testWorld (pythonPrints v) venv a e) mi),
                            versionStr = numberText (testWorld (pythonPrints v) venv a e) ma @ ''.'' @ numberText (testWorld (pythonPrints v) venv a e) mi\<rparr>,
                          isSystemPythonNewEnough := True, hasSystemPythonVenvModule := True\<rparr>
                   else r\<lparr>hasSystemPython := True,
                          systemPythonCommand := Some \<lparr>cmd = ''python.exe'', args = [],
                            version = (parseInt (testWorld (pythonPrints v) venv a e) ma, parseInt (testWorld (pythonPrints v) venv a e) mi),
                            versionStr = numberText (testWorld (pythonPrints v) venv a e) ma @ ''.'' @ numberText (testWorld (pythonPrints v) venv a e) mi\<rparr>\<rparr>), s1)
         \<and> currentProcess s1 = None"
proof -
  let ?w = "testWorld (pythonPrints v) venv a e"
  let ?py = "\<lparr>cmd = ''python.exe'', args = [], version = (parseInt (testWorld (pythonPrints v) venv a e) ma, parseInt (testWorld (pythonPrints v) venv a e) mi),
                versionStr = numberText (testWorld (pythonPrints v) venv a e) ma @ ''.'' @ numberText (testWorld (pythonPrints v) venv a e) mi\<rparr>"
  have "currentProcess (appendLine ''Checking system Python...'' s) = None"
    using assms(1) by simp
  from findPythonCommand_prints [OF this assms(2) system_candidates]
  obtain s1 where f: "findPythonCommand ?w None (appendLine ''Checking system Python...'' s) = (Inr (Some ?py), s1)"
    and i1: "currentProcess s1 = None"
    by blast
  show ?thesis
  proof (cases "newEnough (parseInt (testWorld (pythonPrints v) venv a e) ma, parseInt (testWorld (pythonPrints v) venv a e) mi)")
    case False
    with f i1 show ?thesis by (simp add: probeSystemPython_def Let_def)
  next
    case True
    let ?s2 = "appendLine ''System Python is new enough''
            (appendLine (''System Python found with version '' @ versionStr ?py) s1)"
    have "currentProcess ?s2 = None" using i1 by simp
    from execFancy_prints [OF this, of v venv a e "''python.exe''" "[''-c'', ''import venv'']" silentOpts]
    obtain s3 where "execFancy ?w ''python.exe'' [''-c'', ''import venv''] silentOpts ?s2
        = (Inr (''Python '' @ v @ [LF], []), s3)" and "currentProcess s3 = None"
      by blast
    with f True show ?thesis by (simp add: probeSystemPython_def Let_def)
  qed
qed

lemma probeVenv_absent:
  "probeVenv (testWorld oc False a e) rootPath r s = (Inr r, s)"
  by (simp add: probeVenv_def)

lemma probeVenv_prints:
  assumes "currentProcess s = None" and "matchVersion (''Python '' @ v @ [LF]) = Some (ma, mi)"
  shows "\<exists>s1. probeVenv (testWorld (pythonPrints v) True a e) ''/proj'' r s
           = (Inr (if newEnough (parseInt (testWorld (pythonPrints v) True a e) ma, parseInt (testWorld (pythonPrints v) True a e) mi)
                   then r\<lparr>hasVenvFolder := True,
                          venvPythonCommand := Some \<lparr>cmd = ''/proj/.venv/bin/python.exe'', args = [],
                            version = (parseInt (testWorld (pythonPrints v) True a e) ma, parseInt (testWorld (pythonPrints v) True a e) mi),
                            versionStr = numberText (testWorld (pythonPrints v) True a e) ma @ ''.'' @ numberText (testWorld (pythonPrints v) True a e) mi\<rparr>,
                          isVenvPythonNewEnough := True, isVenvReady := True\<rparr>
                   else r\<lparr>hasVenvFolder := True,
                          venvPythonCommand := Some \<lparr>cmd = ''/proj/.venv/bin/python.exe'', args = [],
                            version = (parseInt (testWorld (pythonPrints v) True a e) ma, parseInt (testWorld (pythonPrints v) True a e) mi),
                            versionStr = numberText (testWorld (pythonPrints v) True a e) ma @ ''.'' @ numberText (testWorld (pythonPrints v) True a e) mi\<rparr>\<rparr>), s1)
         \<and> currentProcess s1 = None"
proof -
  let ?w = "testWorld (pythonPrints v) True a e"
  let ?py = "\<lparr>cmd = ''/proj/.venv/bin/python.exe'', args = [], version = (parseInt (testWorld (pythonPrints v) True a e) ma, parseInt (testWorld (pythonPrints v) True a e) mi),
                versionStr = numberText (testWorld (pythonPrints v) True a e) ma @ ''.'' @ numberText (testWorld (pythonPrints v) True a e) mi\<rparr>"
  have "currentProcess (appendLine (''venv found at '' @ ''/proj/.venv'') s) = None"
    using assms(1) by simp
  from findPythonCommand_prints [OF this assms(2) venv_candidates]
  obtain s1 where f: "findPythonCommand ?w (Some ''/proj/.venv'') (appendLine (''venv found at '' @ ''/proj/.venv'') s)
      = (Inr (Some ?py), s1)"
    and i1: "currentProcess s1 = None"
    by blast
  show ?thesis
  proof (cases "newEnough (parseInt (testWorld (pythonPrints v) True a e) ma, parseInt (testWorld (pythonPrints v) True a e) mi)")
    case False
    with f i1 show ?thesis by (simp add: probeVenv_def Let_def venv_path)
  next
    case True
    let ?s2 = "appendLine ''venv Python is new enough''
            (appendLine (''venv Python found with version '' @ versionStr ?py) s1)"
    have "currentProcess ?s2 = None" using i1 by simp
    from execFancy_prints [OF this, of v True a e "''/proj/.venv/bin/python.exe''" "[''-c'', ''import robotpy'']"
        "silentOpts\<lparr>cwd := Some ''/proj''\<rparr>"]
    obtain s3 where "execFancy ?w ''/proj/.venv/bin/python.exe'' [''-c'', ''import robotpy'']
        (silentOpts\<lparr>cwd := Some ''/proj''\<rparr>) ?s2
        = (Inr (''Python '' @ v @ [LF], []), s3)" and "currentProcess s3 = None"
      by blast
    with f True show ?thesis by (simp add: probeVenv_def Let_def venv_path)
  qed
qed

lemma probeProjectFile_testWorld:
  "\<exists>s1. probeProjectFile (testWorld oc venv a e) rootPath r s = (r\<lparr>hasRobotPyProjectFile := True\<rparr>, s1)
     \<and> currentProcess s1 = currentProcess s"
  by (simp add: probeProjectFile_def Let_def)

lemma probeExecutionPolicy_testWorld:
  "probeExecutionPolicy (testWorld oc venv a e) r s = ((r, False), s)"
  by (simp add: probeExecutionPolicy_def)


lemma newEnough_eval:
  "\<not> newEnough (4, 0)" "newEnough (4, 12)" "newEnough (3, 12)"
  by (simp_all add: newEnough_def PYTHON_MIN_VERSION_def)

lemma checkEnvironment_4_0:
  "fst (checkEnvironment (testWorld (pythonPrints ''4.0.0'') False None None) ''/proj'' initialState)
     = Inr (\<lparr>hasRobotPyProjectFile = True,
              hasSystemPython = True, isSystemPythonNewEnough = False, hasSystemPythonVenvModule = False,
              systemPythonCommand = Some \<lparr>cmd = ''python.exe'', args = [], version = (4, 0), versionStr = ''4.0''\<rparr>,
              hasVenvFolder = False, isVenvPythonNewEnough = False, isVenvReady = False,
              venvPythonCommand = None,
              winExecutionPolicyOk = True\<rparr>, False)"
proof -
  let ?w = "testWorld (pythonPrints ''4.0.0'') False None None"
  from probeProjectFile_testWorld [of "pythonPrints ''4.0.0''" False None None "''/proj''" "initialChecks ?w" initialState]
  obtain s1 where p1: "probeProjectFile ?w ''/proj'' (initialChecks ?w) initialState
      = ((initialChecks ?w)\<lparr>hasRobotPyProjectFile := True\<rparr>, s1)"
    and i1: "currentProcess s1 = None"
    by (auto simp add: initial_facts)
  let ?r = "(initialChecks ?w)\<lparr>hasRobotPyProjectFile := True, hasSystemPython := True,
            systemPythonCommand := Some \<lparr>cmd = ''python.exe'', args = [], version = (4, 0), versionStr = ''4.0''\<rparr>\<rparr>"
  from probeSystemPython_prints [OF i1 matchVersion_4_0, of False None None "(initialChecks ?w)\<lparr>hasRobotPyProjectFile := True\<rparr>"]
  obtain s2 where p2: "probeSystemPython ?w ((initialChecks ?w)\<lparr>hasRobotPyProjectFile := True\<rparr>) s1
      = (Inr ?r, s2)"
    by (auto simp add: parse_eval show_eval newEnough_eval)
  have inv: "assertInvariants ?r = None"
    by (simp add: assertInvariants_def initialChecks_def)
  have "checkEnvironment ?w ''/proj'' initialState = (Inr (?r, False), s2)"
    by (simp add: checkEnvironment_def p1 p2 probeVenv_absent probeExecutionPolicy_testWorld inv)
  then show ?thesis
    by (simp add: initialChecks_def)
qed

lemma checkEnvironment_4_12:
  "fst (checkEnvironment (testWorld (pythonPrints ''4.12.0'') False None None) ''/proj'' initialState)
     = Inr (\<lparr>hasRobotPyProjectFile = True,
              hasSystemPython = True, isSystemPythonNewEnough = True, hasSystemPythonVenvModule = True,
              systemPythonCommand = Some \<lparr>cmd = ''python.exe'', args = [], version = (4, 12), versionStr = ''4.12''\<rparr>,
              hasVenvFolder = False, isVenvPythonNewEnough = False, isVenvReady = False,
              venvPythonCommand = None,
              winExecutionPolicyOk = True\<rparr>, False)"
proof -
  let ?w = "testWorld (pythonPrints ''4.12.0'') False None None"
  from probeProjectFile_testWorld [of "pythonPrints ''4.12.0''" False None None "''/proj''" "initialChecks ?w" initialState]
  obtain s1 where p1: "probeProjectFile ?w ''/proj'' (initialChecks ?w) initialState
      = ((initialChecks ?w)\<lparr>hasRobotPyProjectFile := True\<rparr>, s1)"
    and i1: "currentProcess s1 = None"
    by (auto simp add: initial_facts)
  let ?r = "(initialChecks ?w)\<lparr>hasRobotPyProjectFile := True, hasSystemPython := True,
            systemPythonCommand := Some \<lparr>cmd = ''python.exe'', args = [], version = (4, 12), versionStr = ''4.12''\<rparr>,
            isSystemPythonNewEnough := True, hasSystemPythonVenvModule := True\<rparr>"
  from probeSystemPython_prints [OF i1 matchVersion_4_12, of False None None "(initialChecks ?w)\<lparr>hasRobotPyProjectFile := True\<rparr>"]
  obtain s2 where p2: "probeSystemPython ?w ((initialChecks ?w)\<lparr>hasRobotPyProjectFile := True\<rparr>) s1
      = (Inr ?r, s2)"
    by (auto simp add: parse_eval show_eval newEnough_eval)
  have inv: "assertInvariants ?r = None"
    by (simp add: assertInvariants_def initialChecks_def)
  have "checkEnvironment ?w ''/proj'' initialState = (Inr (?r, False), s2)"
    by (simp add: checkEnvironment_def p1 p2 probeVenv_absent probeExecutionPolicy_testWorld inv)
  then show ?thesis
    by (simp add: initialChecks_def)
qed

text \<open>A machine with Python 3.12 and a virtual environment that has RobotPy.\<close>

lemma checkEnvironment_ready:
  assumes "currentProcess s = None"
  shows "\<exists>s'. checkEnvironment (testWorld (pythonPrints ''3.12.1'') True a e) ''/proj'' s
     = (Inr (\<lparr>hasRobotPyProjectFile = True,
              hasSystemPython = True, isSystemPythonNewEnough = True, hasSystemPythonVenvModule = True,
              systemPythonCommand = Some \<lparr>cmd = ''python.exe'', args = [], version = (3, 12), versionStr = ''3.12''\<rparr>,
              hasVenvFolder = True, isVenvPythonNewEnough = True, isVenvReady = True,
              venvPythonCommand = Some \<lparr>cmd = ''/proj/.venv/bin/python.exe'', args = [], version = (3, 12),
                versionStr = ''3.12''\<rparr>,
              winExecutionPolicyOk = True\<rparr>, False), s')
     \<and> currentProcess s' = None"
proof -
  let ?w = "testWorld (pythonPrints ''3.12.1'') True a e"
  let ?sys = "\<lparr>cmd = ''python.exe'', args = [], version = (3, 12), versionStr = ''3.12''\<rparr>"
  let ?venv = "\<lparr>cmd = ''/proj/.venv/bin/python.exe'', args = [], version = (3, 12), versionStr = ''3.12''\<rparr>"
  let ?r1 = "(initialChecks ?w)\<lparr>hasRobotPyProjectFile := True\<rparr>"
  let ?r2 = "?r1\<lparr>hasSystemPython := True, systemPythonCommand := Some ?sys,
            isSystemPythonNewEnough := True, hasSystemPythonVenvModule := True\<rparr>"
  from probeProjectFile_testWorld [of "pythonPrints ''3.12.1''" True a e "''/proj''" "initialChecks ?w" s]
  obtain s1 where p1: "probeProjectFile ?w ''/proj'' (initialChecks ?w) s = (?r1, s1)"
    and i1: "currentProcess s1 = None"
    using assms by auto
  from probeSystemPython_prints [OF i1 matchVersion_3_12, of True a e ?r1]
  obtain s2 where p2: "probeSystemPython ?w ?r1 s1 = (Inr ?r2, s2)"
    and i2: "currentProcess s2 = None"
    by (auto simp add: parse_eval show_eval newEnough_eval)
  let ?r3 = "?r2\<lparr>hasVenvFolder := True, venvPythonCommand := Some ?venv,
                isVenvPythonNewEnough := True, isVenvReady := True\<rparr>"
  from probeVenv_prints [OF i2 matchVersion_3_12, of a e ?r2]
  obtain s3 where p3: "probeVenv ?w ''/proj'' ?r2 s2 = (Inr ?r3, s3)"
    and i3: "currentProcess s3 = None"
    by (auto simp add: parse_eval show_eval newEnough_eval)
  have inv: "assertInvariants ?r3 = None"
    by (simp add: assertInvariants_def initialChecks_def)
  have "checkEnvironment ?w ''/proj'' s = (Inr (?r3, False), s3)"
    by (simp add: checkEnvironment_def p1 p2 p3 probeExecutionPolicy_testWorld inv)
  with i3 show ?thesis
    by (simp add: initialChecks_def)
qed

theorem report_invariants_witness:
  "fst (checkEnvironment (testWorld (pythonPrints ''3.12.1'') True None None) ''/proj'' initialState)
     = Inr (\<lparr>hasRobotPyProjectFile = True,
              hasSystemPython = True, isSystemPythonNewEnough = True, hasSystemPythonVenvModule = True,
              systemPythonCommand = Some \<lparr>cmd = ''python.exe'', args = [], version = (3, 12), versionStr = ''3.12''\<rparr>,
              hasVenvFolder = True, isVenvPythonNewEnough = True, isVenvReady = True,
              venvPythonCommand = Some \<lparr>cmd = ''/proj/.venv/bin/python.exe'', args = [], version = (3, 12),
                versionStr = ''3.12''\<rparr>,
              winExecutionPolicyOk = True\<rparr>, False)"
  using report_invariants [of "testWorld (pythonPrints ''3.12.1'') True None None" "''/proj''" initialState]
    checkEnvironment_ready [OF initial_facts(1), of None None]
  by auto

text \<open>
  Claim C6 fails as stated: on a machine whose interpreter reports version 4.0, the interpreter
  is found (major version 4) and the report says that it is not new enough.
\<close>

theorem python_4_0_not_new_enough:
  "fst (checkEnvironment (testWorld (pythonPrints ''4.0.0'') False None None) ''/proj'' initialState)
     = Inr (\<lparr>hasRobotPyProjectFile = True,
              hasSystemPython = True, isSystemPythonNewEnough = False, hasSystemPythonVenvModule = False,
              systemPythonCommand = Some \<lparr>cmd = ''python.exe'', args = [], version = (4, 0), versionStr = ''4.0''\<rparr>,
              hasVenvFolder = False, isVenvPythonNewEnough = False, isVenvReady = False,
              venvPythonCommand = None,
              winExecutionPolicyOk = True\<rparr>, False)"
  by (rule checkEnvironment_4_0)

theorem version_gate_componentwise_witness:
  "fst (checkEnvironment (testWorld (pythonPrints ''4.12.0'') False None None) ''/proj'' initialState)
     = Inr (\<lparr>hasRobotPyProjectFile = True,
              hasSystemPython = True, isSystemPythonNewEnough = True, hasSystemPythonVenvModule = True,
              systemPythonCommand = Some \<lparr>cmd = ''python.exe'', args = [], version = (4, 12), versionStr = ''4.12''\<rparr>,
              hasVenvFolder = False, isVenvPythonNewEnough = False, isVenvReady = False,
              venvPythonCommand = None,
              winExecutionPolicyOk = True\<rparr>, False)"
  using version_gate_componentwise [of "testWorld (pythonPrints ''4.12.0'') False None None" "''/proj''" initialState]
    checkEnvironment_4_12
  by auto


section \<open>Commands: saving the active document\<close>

lemma robotpyCommands_save_failed:
  assumes "currentProcess s = None" and "activeEditor w = None \<or> activeEditor w = Some False"
  shows "robotpyCommands w cmds s
     = (Inr RetUndefined,
        emit (ShowWarning ''Failed to save current file. Results may not be what you expect.'')
          (if activeEditor w = None then s else emit SaveDocument s))"
  using assms by (auto simp add: robotpyCommands_def cancelRunning_def saveCurrentFile_def)

text \<open>A started process is recorded in the trace.\<close>

lemma execFancy_spawns:
  assumes "currentProcess s = None"
  shows "Spawn (nextProc s) exe argv (cwd opts) \<in> set (trace (snd (execFancy w exe argv opts s)))"
proof -
  have idle: "currentProcess (getRobotPyTerminal s) = None" using assms by simp
  note r = resolveRunning_idle [OF idle, of w opts "mkCmdString exe argv"]
  obtain s1 where b: "execFancy_begin w exe argv opts s = (Inr (nextProc (getRobotPyTerminal s)), s1)"
    using execFancy_begin_Inr [OF r] by blast
  have "Spawn (nextProc s) exe argv (cwd opts) \<in> set (trace s1)"
    using execFancy_begin_started [OF r b] by simp
  moreover have "set (trace s1) \<subseteq> set (trace (snd (execFancy w exe argv opts s)))"
    using execFancy_finish_trace [of s1 "nextProc (getRobotPyTerminal s)" opts "mkCmdString exe argv"
        "spawnOutcome w (nextProc (getRobotPyTerminal s)) exe argv (cwd opts)"]
      execFancy_Inr [OF b]
    by (auto dest: set_mono_prefix)
  ultimately show ?thesis by blast
qed

lemma venv_python_path: "getVenvPythonPath (testWorld oc venv a e) ''/proj'' = ''/proj/.venv/bin/python''"
  by (simp add: getVenvPythonPath_def getVenvPath_def VENV_DIR_def)

text \<open>On the same machine, a command whose document was saved does run.\<close>

lemma saved_file_runs_command:
  "fst (robotpyCommands (testWorld (pythonPrints ''3.12.1'') True (Some ''Yes'') (Some True))
         (commandArgs Sim) initialState) = Inr RetUndefined
   \<and> (\<exists>h. Spawn h ''/proj/.venv/bin/python'' [''-m'', ''robotpy'', ''sim''] (Some ''/proj'')
         \<in> set (trace (snd (robotpyCommands (testWorld (pythonPrints ''3.12.1'') True (Some ''Yes'') (Some True))
              (commandArgs Sim) initialState))))"
proof -
  let ?w = "testWorld (pythonPrints ''3.12.1'') True (Some ''Yes'') (Some True)"
  let ?r = "\<lparr>hasRobotPyProjectFile = True,
              hasSystemPython = True, isSystemPythonNewEnough = True, hasSystemPythonVenvModule = True,
              systemPythonCommand = Some \<lparr>cmd = ''python.exe'', args = [], version = (3, 12), versionStr = ''3.12''\<rparr>,
              hasVenvFolder = True, isVenvPythonNewEnough = True, isVenvReady = True,
              venvPythonCommand = Some \<lparr>cmd = ''/proj/.venv/bin/python.exe'', args = [], version = (3, 12),
                versionStr = ''3.12''\<rparr>,
              winExecutionPolicyOk = True\<rparr>"
  let ?opts = "\<lparr>cwd = Some ''/proj'', showTerminal = True, silent = False,
        optPrettyName = Some (''robotpy '' @ join '' '' [''sim''])\<rparr>"
  have "currentProcess (emit SaveDocument initialState) = None"
    by (simp add: initial_facts)
  from checkEnvironment_ready [OF this, of "Some ''Yes''" "Some True"]
  obtain s1 where c: "checkEnvironment ?w ''/proj'' (emit SaveDocument initialState) = (Inr (?r, False), s1)"
    and i1: "currentProcess s1 = None"
    by blast
  have ready: "ensureRobotPyReady ?w (emit SaveDocument initialState) = (Inr True, s1)"
    by (simp add: ensureRobotPyReady_def c ensureVenv_def)
  obtain x s2 where run: "execFancy ?w ''/proj/.venv/bin/python'' [''-m'', ''robotpy'', ''sim''] ?opts s1
      = (Inr x, s2)"
    using execFancy_prints [OF i1, of "''3.12.1''" True "Some ''Yes''" "Some True"
        "''/proj/.venv/bin/python''" "[''-m'', ''robotpy'', ''sim'']" ?opts]
    by blast
  have sp: "Spawn (nextProc s1) ''/proj/.venv/bin/python'' [''-m'', ''robotpy'', ''sim''] (Some ''/proj'')
      \<in> set (trace s2)"
    using execFancy_spawns [OF i1, of "''/proj/.venv/bin/python''" "[''-m'', ''robotpy'', ''sim'']" ?opts ?w] run
    by simp
  have "robotpyCommands ?w (commandArgs Sim) initialState = (Inr RetUndefined, s2)"
    using run
    by (simp add: robotpyCommands_def cancelRunning_def saveCurrentFile_def initial_facts ready
        mustGetRootPath_def robotpyCommand_def venv_python_path)
  with sp show ?thesis by auto
qed

text \<open>
  Claim C5.  The claim says that a command goes on to the environment and to its subcommands
  when the active document cannot be saved.  The code does not: with no active editor, no
  process running and an environment that is ready, the command \<open>robotpy.sim\<close> shows the
  warning and returns; the warning is its only effect, no check is made and no process is
  started.
\<close>

theorem save_failure_returns_early:
  "robotpyCommands (testWorld (pythonPrints ''3.12.1'') True (Some ''Yes'') None) (commandArgs Sim) initialState
     = (Inr RetUndefined,
        initialState\<lparr>trace := [ShowWarning ''Failed to save current file. Results may not be what you expect.'']\<rparr>)"
  using robotpyCommands_save_failed [OF initial_facts(1),
      of "testWorld (pythonPrints ''3.12.1'') True (Some ''Yes'') None" "commandArgs Sim"]
  by (simp add: emit_def initial_facts)

end
